theory Spec2Isabelle
  imports Main "HOL-Library.Word" "HOL-Library.AList" "HOL-Library.Multiset"
begin

section \<open>Values shared by the replication service\<close>

text \<open>
  \<open>platform.ID\<close> is a \<open>uint64\<close>. Byte slices are modelled as \<open>string\<close> (a list of
  8-bit characters). \<open>int64\<close> queue sizes are never computed with, only passed on, so
  they are \<open>int\<close>.
\<close>

type_synonym ID = "64 word"
type_synonym bytes = string

text \<open>
  A formatted message is kept as its format string together with the identifiers that are
  rendered into it (all of them with \<open>%q\<close> in the source), because
  \<open>platform.ID.String\<close> is not part of the sources at hand.
\<close>

datatype message = Sprintf string "ID list"

datatype err_code = ENotFound | EInvalid

text \<open>
  Go \<open>error\<close> values: \<open>&ierrors.Error{Code, Msg, Err}\<close>, \<open>sql.ErrNoRows\<close>,
  a \<open>sqlite3.Error\<close> with its \<open>ExtendedCode\<close>, the result of \<open>fmt.Errorf\<close>
  (with the error wrapped by \<open>%w\<close>, if any), and any other error of a collaborator.
\<close>

datatype error =
    IError err_code message "error option"
  | ErrNoRows
  | Sqlite3Error nat
  | Errorf message "error option"
  | Opaque string

text \<open>\<open>sqlite3.ErrConstraintForeignKey = ErrConstraint | (3 << 8)\<close>, with \<open>ErrConstraint = 19\<close>.\<close>

definition ErrConstraintForeignKey :: nat where
  "ErrConstraintForeignKey = 787"

text \<open>
  \<open>errors.Is(err, target)\<close>: \<open>err\<close> is \<open>target\<close>, or it has been made by \<open>fmt.Errorf\<close>
  with \<open>%w\<close> from an error for which this holds. An \<open>ierrors.Error\<close> is not looked
  into: the type has no \<open>Unwrap\<close> method.
\<close>

fun errors_Is :: "error \<Rightarrow> error \<Rightarrow> bool" where
  "errors_Is (Errorf m (Some e)) t = (Errorf m (Some e) = t \<or> errors_Is e t)"
| "errors_Is e t = (e = t)"

definition errReplicationNotFound :: error where
  "errReplicationNotFound = IError ENotFound (Sprintf ''replication not found'' []) None"

definition errRemoteNotFound :: "ID \<Rightarrow> error option \<Rightarrow> error" where
  "errRemoteNotFound rid cause = IError EInvalid (Sprintf ''remote %q not found'' [rid]) cause"

definition errLocalBucketNotFound :: "ID \<Rightarrow> error option \<Rightarrow> error" where
  "errLocalBucketNotFound rid cause =
     IError EInvalid (Sprintf ''local bucket %q not found'' [rid]) cause"

section \<open>Statements built with squirrel\<close>

text \<open>
  A value put into a statement is either a Go value, which squirrel binds as a parameter
  (\<open>?\<close>), or an \<open>sq.Expr\<close>, whose SQL text is spliced into the statement.
  \<open>sq.Eq\<close> is a map from column names to values, kept as an association list.
\<close>

datatype sqvalue =
    VID ID
  | VString string
  | VStringPtr "string option"
  | VInt64 int
  | VBool bool
  | VExpr string

type_synonym sq_Eq = "(string \<times> sqvalue) list"

datatype stmt =
    Select "string list" string sq_Eq
  | Insert string sq_Eq string
  | Update string sq_Eq sq_Eq string
  | Delete string sq_Eq string

section \<open>The trace of calls and log entries\<close>

datatype level = DebugLevel | WarnLevel | ErrorLevel

text \<open>
  \<open>zap\<close> fields. \<open>ZapStringer k i\<close> stands for \<open>zap.String(k, i.String())\<close>.
\<close>

datatype field =
    ZapError error
  | ZapString string string
  | ZapStringer string ID
  | ZapStrings string "string list"

datatype event =
    Exec stmt
  | InitializeQueueCall ID int
  | is_DeleteQueueCall: DeleteQueueCall ID
  | UpdateMaxQueueSizeCall ID int
  | CurrentQueueSizesCall "ID list"
  | is_EnqueueDataCall: EnqueueDataCall ID bytes nat
  | is_Log: Log level string "field list"

section \<open>Collaborators\<close>

text \<open>
  The \<open>DurableQueueManager\<close> interface, over the state \<open>'q\<close> of its implementation.
  A Go map result is a partial function.
\<close>

record 'q DurableQueueManager =
  InitializeQueue :: "ID \<Rightarrow> int \<Rightarrow> 'q \<Rightarrow> error option \<times> 'q"
  DeleteQueue :: "ID \<Rightarrow> 'q \<Rightarrow> error option \<times> 'q"
  UpdateMaxQueueSize :: "ID \<Rightarrow> int \<Rightarrow> 'q \<Rightarrow> error option \<times> 'q"
  CurrentQueueSizes :: "ID list \<Rightarrow> 'q \<Rightarrow> (error + (ID \<Rightarrow> int option)) \<times> 'q"
  EnqueueData :: "ID \<Rightarrow> bytes \<Rightarrow> nat \<Rightarrow> 'q \<Rightarrow> error option \<times> 'q"

record Replication =
  ID :: ID
  OrgID :: ID
  Name :: string
  Description :: "string option"
  RemoteID :: ID
  LocalBucketID :: ID
  RemoteBucketID :: ID
  MaxQueueSizeBytes :: int
  CurrentQueueSizeBytes :: int
  LatestResponseCode :: "int option"
  LatestErrorMessage :: "string option"
  DropNonRetryableData :: bool

record CreateReplicationRequest =
  req_OrgID :: ID
  req_Name :: string
  req_Description :: "string option"
  req_RemoteID :: ID
  req_LocalBucketID :: ID
  req_RemoteBucketID :: ID
  req_MaxQueueSizeBytes :: int
  req_DropNonRetryableData :: bool

record UpdateReplicationRequest =
  upd_Name :: "string option"
  upd_Description :: "string option"
  upd_RemoteID :: "ID option"
  upd_RemoteBucketID :: "ID option"
  upd_MaxQueueSizeBytes :: "int option"
  upd_DropNonRetryableData :: "bool option"

text \<open>
  \<open>store.DB\<close>, over the state \<open>'db\<close> of the database: a statement is run and its
  result rows are scanned into the destination type of the call
  (\<open>[]platform.ID\<close> or \<open>platform.ID\<close>, \<open>influxdb.Replication\<close>, \<open>[]string\<close>).
\<close>

record 'db SqlStore =
  query_ids :: "stmt \<Rightarrow> 'db \<Rightarrow> (error + ID list) \<times> 'db"
  query_replications :: "stmt \<Rightarrow> 'db \<Rightarrow> (error + Replication list) \<times> 'db"
  query_strings :: "stmt \<Rightarrow> 'db \<Rightarrow> (error + string list) \<times> 'db"

text \<open>
  The \<open>service\<close> struct. \<open>idGenerator\<close> gives the n-th identifier it issues;
  \<open>bucketService\<close> is \<open>FindBucketByID\<close> (the bucket found is dropped by every caller);
  \<open>localWriter\<close> is \<open>WritePoints\<close> of the \<open>storage.PointsWriter\<close>, over the state \<open>'l\<close>
  of the local store. The logger is the trace. The validator is used by none of the
  operations below. The locks (\<open>store.Mu\<close>, the read lock of the bucket service) are
  not modelled: an operation runs from its start to its end on the world it is given.
\<close>

record ('db, 'q, 'l, 'p) service =
  store :: "'db SqlStore"
  idGenerator :: "nat \<Rightarrow> ID"
  bucketService :: "ID \<Rightarrow> error option"
  durableQueueManager :: "'q DurableQueueManager"
  localWriter :: "ID \<Rightarrow> ID \<Rightarrow> 'p list \<Rightarrow> 'l \<Rightarrow> error option \<times> 'l"

text \<open>
  What the service uses from libraries and from the Go runtime:
  \<^item> \<open>ToSql\<close>: the error of \<open>q.ToSql()\<close>, if any;
  \<^item> \<open>IDFromString\<close>: the pointer and the error returned by \<open>platform.IDFromString\<close>;
  \<^item> \<open>PrecisionString\<close>: \<open>models.Point.PrecisionString\<close>;
  \<^item> \<open>gzip_NewWriter\<close>, \<open>gzw_Write\<close>, \<open>gzw_Close\<close>, \<open>buf_Bytes\<close>: a \<open>gzip.Writer\<close>
    over a fresh \<open>bytes.Buffer\<close>, together of state \<open>'z\<close>;
  \<^item> \<open>local_first\<close>: whether, of the two tasks of the \<open>errgroup\<close>, the local write is the
    first to return (\<open>Wait\<close> returns the first error recorded);
  \<^item> \<open>go_schedule\<close>: for the goroutines started for a list of identifiers, the
    scheduler's picks: each element is the index of the goroutine that takes its next
    step.
\<close>

record ('p, 'z) runtime =
  ToSql :: "stmt \<Rightarrow> error option"
  IDFromString :: "string \<Rightarrow> ID option \<times> error option"
  PrecisionString :: "'p \<Rightarrow> string \<Rightarrow> bytes"
  gzip_NewWriter :: "'z"
  gzw_Write :: "bytes \<Rightarrow> 'z \<Rightarrow> error option \<times> 'z"
  gzw_Close :: "'z \<Rightarrow> error option \<times> 'z"
  buf_Bytes :: "'z \<Rightarrow> bytes"
  local_first :: bool
  go_schedule :: "ID list \<Rightarrow> nat list"

text \<open>Everything an operation can change.\<close>

record ('db, 'q, 'l) world =
  db :: "'db"
  queues :: "'q"
  tsm :: "'l"
  ids_issued :: nat
  trace :: "event list"

section \<open>Calls through the collaborators\<close>

definition emit :: "event \<Rightarrow> ('db, 'q, 'l) world \<Rightarrow> ('db, 'q, 'l) world" where
  "emit e w = w\<lparr>trace := trace w @ [e]\<rparr>"

text \<open>
  \<open>DB.SelectContext\<close> returns every row of the result; \<open>DB.GetContext\<close> returns the
  first one, and \<open>sql.ErrNoRows\<close> when there is none.
\<close>

definition SelectContext ::
  "(stmt \<Rightarrow> 'db \<Rightarrow> (error + 'r list) \<times> 'db) \<Rightarrow> stmt \<Rightarrow> ('db, 'q, 'l) world
     \<Rightarrow> (error + 'r list) \<times> ('db, 'q, 'l) world" where
  "SelectContext query q w =
     (case query q (db w) of (res, d) \<Rightarrow> (res, emit (Exec q) (w\<lparr>db := d\<rparr>)))"

definition GetContext ::
  "(stmt \<Rightarrow> 'db \<Rightarrow> (error + 'r list) \<times> 'db) \<Rightarrow> stmt \<Rightarrow> ('db, 'q, 'l) world
     \<Rightarrow> (error + 'r) \<times> ('db, 'q, 'l) world" where
  "GetContext query q w =
     (case SelectContext query q w of
        (Inl err, w') \<Rightarrow> (Inl err, w')
      | (Inr [], w') \<Rightarrow> (Inl ErrNoRows, w')
      | (Inr (r # rs), w') \<Rightarrow> (Inr r, w'))"

definition call_queue ::
  "event \<Rightarrow> ('q \<Rightarrow> 'a \<times> 'q) \<Rightarrow> ('db, 'q, 'l) world \<Rightarrow> 'a \<times> ('db, 'q, 'l) world" where
  "call_queue e m w = (case m (queues w) of (res, q) \<Rightarrow> (res, emit e (w\<lparr>queues := q\<rparr>)))"

definition dqm_InitializeQueue where
  "dqm_InitializeQueue s rid maxBytes =
     call_queue (InitializeQueueCall rid maxBytes)
       (InitializeQueue (durableQueueManager s) rid maxBytes)"

definition dqm_DeleteQueue where
  "dqm_DeleteQueue s rid =
     call_queue (DeleteQueueCall rid) (DeleteQueue (durableQueueManager s) rid)"

definition dqm_UpdateMaxQueueSize where
  "dqm_UpdateMaxQueueSize s rid maxBytes =
     call_queue (UpdateMaxQueueSizeCall rid maxBytes)
       (UpdateMaxQueueSize (durableQueueManager s) rid maxBytes)"

definition dqm_CurrentQueueSizes where
  "dqm_CurrentQueueSizes s ids =
     call_queue (CurrentQueueSizesCall ids) (CurrentQueueSizes (durableQueueManager s) ids)"

definition dqm_EnqueueData where
  "dqm_EnqueueData s rid data numPoints =
     call_queue (EnqueueDataCall rid data numPoints)
       (EnqueueData (durableQueueManager s) rid data numPoints)"

definition localWriter_WritePoints ::
  "('db, 'q, 'l, 'p) service \<Rightarrow> ID \<Rightarrow> ID \<Rightarrow> 'p list \<Rightarrow> ('db, 'q, 'l) world
     \<Rightarrow> error option \<times> ('db, 'q, 'l) world" where
  "localWriter_WritePoints s orgID bucketID points w =
     (case localWriter s orgID bucketID points (tsm w) of (err, l) \<Rightarrow> (err, w\<lparr>tsm := l\<rparr>))"

definition idGenerator_ID ::
  "('db, 'q, 'l, 'p) service \<Rightarrow> ('db, 'q, 'l) world \<Rightarrow> ID \<times> ('db, 'q, 'l) world" where
  "idGenerator_ID s w = (idGenerator s (ids_issued w), w\<lparr>ids_issued := Suc (ids_issued w)\<rparr>)"

section \<open>WritePoints\<close>

definition newline :: char where
  "newline = CHR 0x0A"

text \<open>
  The second task of the \<open>errgroup\<close>: every point is written to the gzip writer as its
  line protocol followed by a newline; a failed write closes the writer and returns the
  wrapped error; at the end the writer is closed.
\<close>

fun serialize :: "('p, 'z) runtime \<Rightarrow> 'p list \<Rightarrow> 'z \<Rightarrow> error option \<times> 'z" where
  "serialize rt [] z =
     (case gzw_Close rt z of
        (Some err, z') \<Rightarrow> (Some err, z')
      | (None, z') \<Rightarrow> (None, z'))"
| "serialize rt (p # ps) z =
     (case gzw_Write rt (PrecisionString rt p ''ns'' @ [newline]) z of
        (Some err, z') \<Rightarrow>
          (Some (Errorf (Sprintf ''failed to serialize points for replication: %w'' [])
                   (Some err)),
           snd (gzw_Close rt z'))
      | (None, z') \<Rightarrow> serialize rt ps z')"

text \<open>\<open>egroup.Wait()\<close>: the first error recorded, in the order in which the tasks return.\<close>

definition egroup_Wait :: "bool \<Rightarrow> error option \<Rightarrow> error option \<Rightarrow> error option" where
  "egroup_Wait localFirst errLocal errSerialize =
     (if localFirst
      then (case errLocal of Some err \<Rightarrow> Some err | None \<Rightarrow> errSerialize)
      else (case errSerialize of Some err \<Rightarrow> Some err | None \<Rightarrow> errLocal))"

text \<open>
  A goroutine of the fan-out has not called \<open>EnqueueData\<close> yet, or its call has failed
  and the error is still to be logged, or it has ended (\<open>wg.Done()\<close> has run).
\<close>

datatype goroutine = Ready ID | Failed ID error | Finished

text \<open>
  The next step of a goroutine. A call of \<open>EnqueueData\<close> is one step, and so is an entry
  into the log: the queue manager and the logger synchronise their callers, so that calls
  and entries of different goroutines take effect one after the other, in some order.
\<close>

definition run_goroutine ::
  "('db, 'q, 'l, 'p) service \<Rightarrow> bytes \<Rightarrow> nat \<Rightarrow> goroutine \<Rightarrow> ('db, 'q, 'l) world
     \<Rightarrow> goroutine \<times> ('db, 'q, 'l) world" where
  "run_goroutine s data numPoints g w =
     (case g of
        Ready rid \<Rightarrow>
          (case dqm_EnqueueData s rid data numPoints w of
             (Some err, w') \<Rightarrow> (Failed rid err, w')
           | (None, w') \<Rightarrow> (Finished, w'))
      | Failed rid err \<Rightarrow>
          (Finished,
           emit (Log ErrorLevel ''Failed to enqueue points for replication''
                   [ZapStringer ''id'' rid, ZapError err]) w)
      | Finished \<Rightarrow> (Finished, w))"

text \<open>The counter of the \<open>sync.WaitGroup\<close> is zero: every goroutine has ended.\<close>

definition wg_done :: "goroutine list \<Rightarrow> bool" where
  "wg_done gs = list_all (\<lambda>g. g = Finished) gs"

text \<open>
  The goroutines of the fan-out under the picks of the scheduler, up to the return of
  \<open>wg.Wait()\<close>. \<open>wg.Wait()\<close> returns as soon as every goroutine has ended; under picks
  that leave a goroutine unfinished it does not return, which is the result \<open>None\<close>.
  A pick of a goroutine that has ended, or of none, changes nothing, so that every run
  in which all goroutines end is the run of picks that hold each goroutine twice.
\<close>

fun fan_out ::
  "('db, 'q, 'l, 'p) service \<Rightarrow> bytes \<Rightarrow> nat \<Rightarrow> nat list \<Rightarrow> goroutine list
     \<Rightarrow> ('db, 'q, 'l) world \<Rightarrow> ('db, 'q, 'l) world option" where
  "fan_out s data numPoints [] gs w = (if wg_done gs then Some w else None)"
| "fan_out s data numPoints (k # ks) gs w =
     (if wg_done gs then Some w
      else if k < length gs
      then (case run_goroutine s data numPoints (gs ! k) w of
              (g, w') \<Rightarrow> fan_out s data numPoints ks (gs[k := g]) w')
      else fan_out s data numPoints ks gs w)"

definition select_ids_stmt :: "ID \<Rightarrow> ID \<Rightarrow> stmt" where
  "select_ids_stmt orgID bucketID =
     Select [''id''] ''replications''
       [(''org_id'', VID orgID), (''local_bucket_id'', VID bucketID)]"

text \<open>
  \<open>WritePoints\<close> returns an error or \<open>nil\<close> together with the world it leaves, or it
  does not return (\<open>None\<close>), which can only be while it waits for the fan-out.
\<close>

definition WritePoints ::
  "('p, 'z) runtime \<Rightarrow> ('db, 'q, 'l, 'p) service \<Rightarrow> ID \<Rightarrow> ID \<Rightarrow> 'p list
     \<Rightarrow> ('db, 'q, 'l) world \<Rightarrow> (error option \<times> ('db, 'q, 'l) world) option" where
  "WritePoints rt s orgID bucketID points w =
     (let q = select_ids_stmt orgID bucketID in
      case ToSql rt q of
        Some err \<Rightarrow> Some (Some err, w)
      | None \<Rightarrow>
          (case SelectContext (query_ids (store s)) q w of
             (Inl err, w1) \<Rightarrow> Some (Some err, w1)
           | (Inr ids, w1) \<Rightarrow>
               if length ids = 0
               then Some (localWriter_WritePoints s orgID bucketID points w1)
               else
                 (case localWriter_WritePoints s orgID bucketID points w1 of
                    (errLocal, w2) \<Rightarrow>
                      (case serialize rt points (gzip_NewWriter rt) of
                         (errSerialize, z) \<Rightarrow>
                           (case egroup_Wait (local_first rt) errLocal errSerialize of
                              Some err \<Rightarrow> Some (Some err, w2)
                            | None \<Rightarrow>
                                (case fan_out s (buf_Bytes rt z) (length points)
                                        (go_schedule rt ids) (map Ready ids) w2 of
                                   None \<Rightarrow> None
                                 | Some w3 \<Rightarrow> Some (None, w3)))))))"

section \<open>CreateReplication\<close>

definition insert_replication_stmt :: "ID \<Rightarrow> CreateReplicationRequest \<Rightarrow> stmt" where
  "insert_replication_stmt newID request =
     Insert ''replications''
       [(''id'', VID newID),
        (''org_id'', VID (req_OrgID request)),
        (''name'', VString (req_Name request)),
        (''description'', VStringPtr (req_Description request)),
        (''remote_id'', VID (req_RemoteID request)),
        (''local_bucket_id'', VID (req_LocalBucketID request)),
        (''remote_bucket_id'', VID (req_RemoteBucketID request)),
        (''max_queue_size_bytes'', VInt64 (req_MaxQueueSizeBytes request)),
        (''drop_non_retryable_data'', VBool (req_DropNonRetryableData request)),
        (''created_at'', VString ''datetime('now')''),
        (''updated_at'', VString ''datetime('now')'')]
       ''RETURNING id, org_id, name, description, remote_id, local_bucket_id, remote_bucket_id, max_queue_size_bytes, drop_non_retryable_data''"

definition cleanupQueue ::
  "('db, 'q, 'l, 'p) service \<Rightarrow> ID \<Rightarrow> ('db, 'q, 'l) world \<Rightarrow> ('db, 'q, 'l) world" where
  "cleanupQueue s newID w =
     (case dqm_DeleteQueue s newID w of
        (Some cleanupErr, w') \<Rightarrow>
          emit (Log WarnLevel ''durable queue remaining on disk after initialization failure''
                  [ZapError cleanupErr, ZapStringer ''id'' newID]) w'
      | (None, w') \<Rightarrow> w')"

text \<open>
  \<open>sqlErr, ok := err.(sqlite3.Error); ok && sqlErr.ExtendedCode == sqlite3.ErrConstraintForeignKey\<close>
\<close>

definition isForeignKeyError :: "error \<Rightarrow> bool" where
  "isForeignKeyError err =
     (case err of Sqlite3Error code \<Rightarrow> code = ErrConstraintForeignKey | _ \<Rightarrow> False)"

definition CreateReplication ::
  "('p, 'z) runtime \<Rightarrow> ('db, 'q, 'l, 'p) service \<Rightarrow> CreateReplicationRequest
     \<Rightarrow> ('db, 'q, 'l) world \<Rightarrow> (error + Replication) \<times> ('db, 'q, 'l) world" where
  "CreateReplication rt s request w =
     (case bucketService s (req_LocalBucketID request) of
        Some err \<Rightarrow> (Inl (errLocalBucketNotFound (req_LocalBucketID request) (Some err)), w)
      | None \<Rightarrow>
          (case idGenerator_ID s w of
             (newID, w1) \<Rightarrow>
               (case dqm_InitializeQueue s newID (req_MaxQueueSizeBytes request) w1 of
                  (Some err, w2) \<Rightarrow> (Inl err, w2)
                | (None, w2) \<Rightarrow>
                    (let q = insert_replication_stmt newID request in
                     case ToSql rt q of
                       Some err \<Rightarrow> (Inl err, cleanupQueue s newID w2)
                     | None \<Rightarrow>
                         (case GetContext (query_replications (store s)) q w2 of
                            (Inl err, w3) \<Rightarrow>
                              if isForeignKeyError err
                              then (Inl (errRemoteNotFound (req_RemoteID request) (Some err)),
                                    cleanupQueue s newID w3)
                              else (Inl err, cleanupQueue s newID w3)
                          | (Inr r, w3) \<Rightarrow> (Inr r, w3))))))"

section \<open>UpdateReplication\<close>

definition update_columns :: "UpdateReplicationRequest \<Rightarrow> sq_Eq" where
  "update_columns request =
     (let updates = [(''updated_at'', VExpr ''datetime('now')'')];
          updates = (case upd_Name request of
                       Some v \<Rightarrow> AList.update ''name'' (VString v) updates
                     | None \<Rightarrow> updates);
          updates = (case upd_Description request of
                       Some v \<Rightarrow> AList.update ''description'' (VString v) updates
                     | None \<Rightarrow> updates);
          updates = (case upd_RemoteID request of
                       Some v \<Rightarrow> AList.update ''remote_id'' (VID v) updates
                     | None \<Rightarrow> updates);
          updates = (case upd_RemoteBucketID request of
                       Some v \<Rightarrow> AList.update ''remote_bucket_id'' (VID v) updates
                     | None \<Rightarrow> updates);
          updates = (case upd_MaxQueueSizeBytes request of
                       Some v \<Rightarrow> AList.update ''max_queue_size_bytes'' (VInt64 v) updates
                     | None \<Rightarrow> updates);
          updates = (case upd_DropNonRetryableData request of
                       Some v \<Rightarrow> AList.update ''drop_non_retryable_data'' (VBool v) updates
                     | None \<Rightarrow> updates)
      in updates)"

definition update_replication_stmt :: "ID \<Rightarrow> UpdateReplicationRequest \<Rightarrow> stmt" where
  "update_replication_stmt rid request =
     Update ''replications'' (update_columns request) [(''id'', VID rid)]
       ''RETURNING id, org_id, name, description, remote_id, local_bucket_id, remote_bucket_id, max_queue_size_bytes, drop_non_retryable_data''"

definition UpdateReplication ::
  "('p, 'z) runtime \<Rightarrow> ('db, 'q, 'l, 'p) service \<Rightarrow> ID \<Rightarrow> UpdateReplicationRequest
     \<Rightarrow> ('db, 'q, 'l) world \<Rightarrow> (error + Replication) \<times> ('db, 'q, 'l) world" where
  "UpdateReplication rt s rid request w =
     (let q = update_replication_stmt rid request in
      case ToSql rt q of
        Some err \<Rightarrow> (Inl err, w)
      | None \<Rightarrow>
          (case GetContext (query_replications (store s)) q w of
             (Inl err, w1) \<Rightarrow>
               if errors_Is err ErrNoRows then (Inl errReplicationNotFound, w1)
               else
                 (case upd_RemoteID request of
                    Some remoteID \<Rightarrow>
                      if isForeignKeyError err
                      then (Inl (errRemoteNotFound remoteID (Some err)), w1)
                      else (Inl err, w1)
                  | None \<Rightarrow> (Inl err, w1))
           | (Inr r, w1) \<Rightarrow>
               (case (case upd_MaxQueueSizeBytes request of
                        Some v \<Rightarrow>
                          (case dqm_UpdateMaxQueueSize s rid v w1 of
                             (Some err, w2) \<Rightarrow>
                               (Some err,
                                emit (Log WarnLevel
                                        ''actual max queue size does not match the max queue size recorded in database''
                                        [ZapStringer ''id'' rid]) w2)
                           | (None, w2) \<Rightarrow> (None, w2))
                      | None \<Rightarrow> (None, w1)) of
                  (Some err, w2) \<Rightarrow> (Inl err, w2)
                | (None, w2) \<Rightarrow>
                    (case dqm_CurrentQueueSizes s [ID r] w2 of
                       (Inl err, w3) \<Rightarrow> (Inl err, w3)
                     | (Inr sizes, w3) \<Rightarrow>
                         (Inr (r\<lparr>CurrentQueueSizeBytes :=
                                   (case sizes (ID r) of Some n \<Rightarrow> n | None \<Rightarrow> 0)\<rparr>),
                          w3)))))"

section \<open>DeleteReplication and DeleteBucketReplications\<close>

definition delete_replication_stmt :: "ID \<Rightarrow> stmt" where
  "delete_replication_stmt rid = Delete ''replications'' [(''id'', VID rid)] ''RETURNING id''"

definition DeleteReplication ::
  "('p, 'z) runtime \<Rightarrow> ('db, 'q, 'l, 'p) service \<Rightarrow> ID \<Rightarrow> ('db, 'q, 'l) world
     \<Rightarrow> error option \<times> ('db, 'q, 'l) world" where
  "DeleteReplication rt s rid w =
     (let q = delete_replication_stmt rid in
      case ToSql rt q of
        Some err \<Rightarrow> (Some err, w)
      | None \<Rightarrow>
          (case GetContext (query_ids (store s)) q w of
             (Inl err, w1) \<Rightarrow>
               if errors_Is err ErrNoRows then (Some errReplicationNotFound, w1)
               else (Some err, w1)
           | (Inr d, w1) \<Rightarrow>
               (case dqm_DeleteQueue s rid w1 of
                  (Some err, w2) \<Rightarrow> (Some err, w2)
                | (None, w2) \<Rightarrow> (None, w2))))"

text \<open>A function returns, or the goroutine panics.\<close>

datatype 'a go_result = Return 'a | Panic string

definition nil_dereference :: string where
  "nil_dereference = ''runtime error: invalid memory address or nil pointer dereference''"

definition deletion_failure_log :: "error \<Rightarrow> string \<Rightarrow> event" where
  "deletion_failure_log err replication =
     Log ErrorLevel ''durable queue remaining on disk after deletion failure''
       [ZapError err, ZapString ''id'' replication]"

text \<open>
  The loop over the deleted identifiers, with \<open>errOccurred\<close> carried along. The pointer
  \<open>rid\<close> returned by \<open>platform.IDFromString\<close> is dereferenced in every iteration,
  whatever the error returned with it.
\<close>

fun delete_queues ::
  "('p, 'z) runtime \<Rightarrow> ('db, 'q, 'l, 'p) service \<Rightarrow> string list \<Rightarrow> bool
     \<Rightarrow> ('db, 'q, 'l) world \<Rightarrow> bool go_result \<times> ('db, 'q, 'l) world" where
  "delete_queues rt s [] errOccurred w = (Return errOccurred, w)"
| "delete_queues rt s (replication # rest) errOccurred w =
     (case IDFromString rt replication of
        (ptr, err) \<Rightarrow>
          (case (case err of
                   Some e \<Rightarrow> (True, emit (deletion_failure_log e replication) w)
                 | None \<Rightarrow> (errOccurred, w)) of
             (errOccurred1, w1) \<Rightarrow>
               (case ptr of
                  None \<Rightarrow> (Panic nil_dereference, w1)
                | Some rid \<Rightarrow>
                    (case dqm_DeleteQueue s rid w1 of
                       (Some e, w2) \<Rightarrow>
                         delete_queues rt s rest True
                           (emit (deletion_failure_log e replication) w2)
                     | (None, w2) \<Rightarrow> delete_queues rt s rest errOccurred1 w2))))"

definition delete_bucket_replications_stmt :: "ID \<Rightarrow> stmt" where
  "delete_bucket_replications_stmt localBucketID =
     Delete ''replications'' [(''local_bucket_id'', VID localBucketID)] ''RETURNING id''"

definition bucket_deletion_error :: "ID \<Rightarrow> error" where
  "bucket_deletion_error localBucketID =
     Errorf (Sprintf ''deleting replications for bucket %q failed, see server logs for details''
               [localBucketID]) None"

definition DeleteBucketReplications ::
  "('p, 'z) runtime \<Rightarrow> ('db, 'q, 'l, 'p) service \<Rightarrow> ID \<Rightarrow> ('db, 'q, 'l) world
     \<Rightarrow> error option go_result \<times> ('db, 'q, 'l) world" where
  "DeleteBucketReplications rt s localBucketID w =
     (let q = delete_bucket_replications_stmt localBucketID in
      case ToSql rt q of
        Some err \<Rightarrow> (Return (Some err), w)
      | None \<Rightarrow>
          (case SelectContext (query_strings (store s)) q w of
             (Inl err, w1) \<Rightarrow> (Return (Some err), w1)
           | (Inr deleted, w1) \<Rightarrow>
               (case delete_queues rt s deleted False w1 of
                  (Panic m, w2) \<Rightarrow> (Panic m, w2)
                | (Return errOccurred, w2) \<Rightarrow>
                    (let w3 = emit (Log DebugLevel ''Deleted all replications for local bucket''
                                      [ZapStringer ''bucket_id'' localBucketID,
                                       ZapStrings ''ids'' deleted]) w2
                     in if errOccurred
                        then (Return (Some (bucket_deletion_error localBucketID)), w3)
                        else (Return None, w3)))))"

section \<open>Metrics\<close>

record CounterOpts =
  Namespace :: string
  Subsystem :: string
  opts_Name :: string
  Help :: string

record CounterVec =
  opts :: CounterOpts
  labelNames :: "string list"

type_synonym ptr = nat













section \<open>Notions used to state the properties\<close>

text \<open>
  The result of each call of a queue operation \<open>m\<close> made for the keys \<open>ks\<close> one after
  the other, starting in the queue state \<open>q\<close>.
\<close>

fun call_results ::
  "('k \<Rightarrow> 'q \<Rightarrow> error option \<times> 'q) \<Rightarrow> 'k list \<Rightarrow> 'q \<Rightarrow> ('k \<times> error option) list" where
  "call_results m [] q = []"
| "call_results m (k # ks) q = (case m k q of (res, q') \<Rightarrow> (k, res) # call_results m ks q')"

definition failures :: "('k \<times> error option) list \<Rightarrow> ('k \<times> error) list" where
  "failures rs = concat (map (\<lambda>(k, res). case res of Some err \<Rightarrow> [(k, err)] | None \<Rightarrow> []) rs)"

text \<open>The error log of a goroutine of the fan-out whose call has failed.\<close>

definition enqueue_failure_log :: "ID \<times> error \<Rightarrow> event" where
  "enqueue_failure_log f =
     Log ErrorLevel ''Failed to enqueue points for replication''
       [ZapStringer ''id'' (fst f), ZapError (snd f)]"

text \<open>
  The identifiers for which \<open>EnqueueData\<close> is called in a trace, in the order of the
  calls.
\<close>

fun called_ids :: "event list \<Rightarrow> ID list" where
  "called_ids [] = []"
| "called_ids (e # es) =
     (case e of EnqueueDataCall rid data n \<Rightarrow> rid # called_ids es | _ \<Rightarrow> called_ids es)"

text \<open>
  Of a list of goroutines: the identifiers still to be called, the failures still to be
  logged, and the steps a goroutine has left.
\<close>

fun ready :: "goroutine list \<Rightarrow> ID multiset" where
  "ready [] = {#}"
| "ready (g # gs) = (case g of Ready rid \<Rightarrow> {#rid#} | _ \<Rightarrow> {#}) + ready gs"

fun pending :: "goroutine list \<Rightarrow> (ID \<times> error) multiset" where
  "pending [] = {#}"
| "pending (g # gs) = (case g of Failed rid err \<Rightarrow> {#(rid, err)#} | _ \<Rightarrow> {#}) + pending gs"

definition steps_left :: "goroutine \<Rightarrow> nat" where
  "steps_left g = (case g of Ready rid \<Rightarrow> 2 | Failed rid err \<Rightarrow> 1 | Finished \<Rightarrow> 0)"

text \<open>What the cleanup of \<open>CreateReplication\<close> leaves in the trace, given the result of \<open>DeleteQueue\<close>.\<close>

definition cleanup_events :: "ID \<Rightarrow> error option \<Rightarrow> event list" where
  "cleanup_events newID res =
     DeleteQueueCall newID #
       (case res of
          Some cleanupErr \<Rightarrow>
            [Log WarnLevel ''durable queue remaining on disk after initialization failure''
               [ZapError cleanupErr, ZapStringer ''id'' newID]]
        | None \<Rightarrow> [])"

text \<open>The warning of \<open>UpdateReplication\<close> after a failed resize.\<close>

definition resize_warning :: "ID \<Rightarrow> event" where
  "resize_warning rid =
     Log WarnLevel ''actual max queue size does not match the max queue size recorded in database''
       [ZapStringer ''id'' rid]"

text \<open>
  What one iteration of the loop of \<open>DeleteBucketReplications\<close> leaves in the trace, for
  an identifier that has been parsed, given the result of \<open>DeleteQueue\<close>; and the debug
  entry after the loop.
\<close>

definition delete_events :: "(string \<times> ID) \<times> error option \<Rightarrow> event list" where
  "delete_events r =
     DeleteQueueCall (snd (fst r)) #
       (case snd r of
          Some err \<Rightarrow> [deletion_failure_log err (fst (fst r))]
        | None \<Rightarrow> [])"

definition bucket_deleted_log :: "ID \<Rightarrow> string list \<Rightarrow> event" where
  "bucket_deleted_log localBucketID deleted =
     Log DebugLevel ''Deleted all replications for local bucket''
       [ZapStringer ''bucket_id'' localBucketID, ZapStrings ''ids'' deleted]"

text \<open>The two counter vectors that \<open>NewReplicationsMetrics\<close> allocates.\<close>

definition points_vec :: CounterVec where
  "points_vec =
     \<lparr>opts = \<lparr>Namespace = ''replications'', Subsystem = ''what_is_this_for'',
              opts_Name = ''points_queued'',
              Help = ''The number of points enqueued to the replication stream''\<rparr>,
      labelNames = [''replicationID'']\<rparr>"

definition bytes_vec :: CounterVec where
  "bytes_vec =
     \<lparr>opts = \<lparr>Namespace = ''replications'', Subsystem = ''what_is_this_for'',
              opts_Name = ''bytes_queued'',
              Help = ''The number bytes enqueued to the replication stream''\<rparr>,
      labelNames = [''replicationID'']\<rparr>"

text \<open>The chunks written to a gzip writer one after the other, up to the first error.\<close>

fun gzw_writes :: "('p, 'z) runtime \<Rightarrow> bytes list \<Rightarrow> 'z \<Rightarrow> error option \<times> 'z" where
  "gzw_writes rt [] z = (None, z)"
| "gzw_writes rt (c # cs) z =
     (case gzw_Write rt c z of
        (Some err, z') \<Rightarrow> (Some err, z')
      | (None, z') \<Rightarrow> gzw_writes rt cs z')"

text \<open>
  \<open>gunzip\<close> inverts the gzip writer of the runtime: whenever chunks have been written to
  a new writer and the writer has been closed, all without error, the buffer gunzips to
  the chunks in a row.
\<close>

definition gzip_inverse :: "('p, 'z) runtime \<Rightarrow> (bytes \<Rightarrow> bytes option) \<Rightarrow> bool" where
  "gzip_inverse rt gunzip =
     (\<forall>chunks z z'.
        gzw_writes rt chunks (gzip_NewWriter rt) = (None, z) \<longrightarrow>
        gzw_Close rt z = (None, z') \<longrightarrow>
        gunzip (buf_Bytes rt z') = Some (concat chunks))"

text \<open>The line protocol that is to be replicated for a list of points.\<close>

definition line_protocol :: "('p, 'z) runtime \<Rightarrow> 'p list \<Rightarrow> bytes" where
  "line_protocol rt points = concat (map (\<lambda>p. PrecisionString rt p ''ns'' @ [newline]) points)"

section \<open>In-memory collaborators for concrete runs\<close>

text \<open>
  A store that answers every statement with a fixed result and keeps the statements it
  has run.
\<close>

definition stub_store ::
  "(error + ID list) \<Rightarrow> (error + Replication list) \<Rightarrow> (error + string list)
     \<Rightarrow> (stmt list) SqlStore" where
  "stub_store ids reps strs =
     \<lparr>query_ids = (\<lambda>q d. (ids, d @ [q])),
      query_replications = (\<lambda>q d. (reps, d @ [q])),
      query_strings = (\<lambda>q d. (strs, d @ [q]))\<rparr>"

text \<open>
  A store that keeps the rows inserted into it. A bound parameter is stored as it is;
  the SQL expression \<open>datetime('now')\<close> is evaluated to the time of the clock.
\<close>

definition stored_value :: "string \<Rightarrow> sqvalue \<Rightarrow> sqvalue" where
  "stored_value clock v =
     (case v of
        VExpr e \<Rightarrow> if e = ''datetime('now')'' then VString clock else v
      | _ \<Rightarrow> v)"

definition replication_of :: "sq_Eq \<Rightarrow> Replication" where
  "replication_of cols =
     \<lparr>ID = (case map_of cols ''id'' of Some (VID i) \<Rightarrow> i | _ \<Rightarrow> 0),
      OrgID = (case map_of cols ''org_id'' of Some (VID i) \<Rightarrow> i | _ \<Rightarrow> 0),
      Name = (case map_of cols ''name'' of Some (VString n) \<Rightarrow> n | _ \<Rightarrow> []),
      Description = (case map_of cols ''description'' of Some (VStringPtr d) \<Rightarrow> d | _ \<Rightarrow> None),
      RemoteID = (case map_of cols ''remote_id'' of Some (VID i) \<Rightarrow> i | _ \<Rightarrow> 0),
      LocalBucketID = (case map_of cols ''local_bucket_id'' of Some (VID i) \<Rightarrow> i | _ \<Rightarrow> 0),
      RemoteBucketID = (case map_of cols ''remote_bucket_id'' of Some (VID i) \<Rightarrow> i | _ \<Rightarrow> 0),
      MaxQueueSizeBytes =
        (case map_of cols ''max_queue_size_bytes'' of Some (VInt64 n) \<Rightarrow> n | _ \<Rightarrow> 0),
      CurrentQueueSizeBytes = 0,
      LatestResponseCode = None,
      LatestErrorMessage = None,
      DropNonRetryableData =
        (case map_of cols ''drop_non_retryable_data'' of Some (VBool b) \<Rightarrow> b | _ \<Rightarrow> False)\<rparr>"

definition mem_store :: "string \<Rightarrow> (sq_Eq list) SqlStore" where
  "mem_store clock =
     \<lparr>query_ids = (\<lambda>q rows. (Inr [], rows)),
      query_replications =
        (\<lambda>q rows. case q of
           Insert t cols sfx \<Rightarrow>
             (Inr [replication_of cols],
              rows @ [map (\<lambda>(c, v). (c, stored_value clock v)) cols])
         | _ \<Rightarrow> (Inr [], rows)),
      query_strings = (\<lambda>q rows. (Inr [], rows))\<rparr>"

text \<open>
  A queue manager whose calls fail as \<open>fails\<close> says and that keeps the records enqueued.
\<close>

definition stub_queues :: "(event \<Rightarrow> error option) \<Rightarrow> ((ID \<times> bytes) list) DurableQueueManager" where
  "stub_queues fails =
     \<lparr>InitializeQueue = (\<lambda>rid m q. (fails (InitializeQueueCall rid m), q)),
      DeleteQueue = (\<lambda>rid q. (fails (DeleteQueueCall rid), q)),
      UpdateMaxQueueSize = (\<lambda>rid m q. (fails (UpdateMaxQueueSizeCall rid m), q)),
      CurrentQueueSizes = (\<lambda>ids q. (Inr (\<lambda>i. None), q)),
      EnqueueData =
        (\<lambda>rid data n q.
           case fails (EnqueueDataCall rid data n) of
             Some err \<Rightarrow> (Some err, q)
           | None \<Rightarrow> (None, q @ [(rid, data)]))\<rparr>"

text \<open>
  The queue of \<open>x\<close> takes no record and every other call succeeds; or no queue takes a
  record.
\<close>

definition queue_full :: "ID \<Rightarrow> event \<Rightarrow> error option" where
  "queue_full x e =
     (case e of
        EnqueueDataCall i data n \<Rightarrow> if i = x then Some (Opaque ''queue full'') else None
      | _ \<Rightarrow> None)"


text \<open>A local writer that fails with \<open>err\<close>, if given, and keeps the points otherwise.\<close>

definition stub_writer :: "error option \<Rightarrow> ID \<Rightarrow> ID \<Rightarrow> 'p list \<Rightarrow> 'p list \<Rightarrow> error option \<times> 'p list" where
  "stub_writer err orgID bucketID points l =
     (case err of Some e \<Rightarrow> (Some e, l) | None \<Rightarrow> (None, l @ points))"

definition stub_service ::
  "'db SqlStore \<Rightarrow> (event \<Rightarrow> error option) \<Rightarrow> error option
     \<Rightarrow> ('db, (ID \<times> bytes) list, string list, string) service" where
  "stub_service st fails localErr =
     \<lparr>store = st,
      idGenerator = (\<lambda>n. of_nat (Suc n)),
      bucketService = (\<lambda>b. None),
      durableQueueManager = stub_queues fails,
      localWriter = stub_writer localErr\<rparr>"

text \<open>
  Identifiers in their text form: sixteen hexadecimal digits, in either case, of a
  number other than zero. The two errors are those of \<open>platform.IDFromString\<close>.
\<close>

definition ErrInvalidID :: error where
  "ErrInvalidID = IError EInvalid (Sprintf ''invalid ID'' []) None"

definition ErrInvalidIDLength :: error where
  "ErrInvalidIDLength = IError EInvalid (Sprintf ''id must have a length of 16 bytes'' []) None"

definition hex_digit :: "char \<Rightarrow> nat option" where
  "hex_digit = map_of
     [(CHR ''0'', 0), (CHR ''1'', 1), (CHR ''2'', 2), (CHR ''3'', 3), (CHR ''4'', 4),
      (CHR ''5'', 5), (CHR ''6'', 6), (CHR ''7'', 7), (CHR ''8'', 8), (CHR ''9'', 9),
      (CHR ''a'', 10), (CHR ''b'', 11), (CHR ''c'', 12), (CHR ''d'', 13), (CHR ''e'', 14),
      (CHR ''f'', 15),
      (CHR ''A'', 10), (CHR ''B'', 11), (CHR ''C'', 12), (CHR ''D'', 13), (CHR ''E'', 14),
      (CHR ''F'', 15)]"

fun decode_hex :: "string \<Rightarrow> nat \<Rightarrow> nat option" where
  "decode_hex [] acc = Some acc"
| "decode_hex (c # cs) acc =
     (case hex_digit c of None \<Rightarrow> None | Some d \<Rightarrow> decode_hex cs (16 * acc + d))"

definition stub_IDFromString :: "string \<Rightarrow> ID option \<times> error option" where
  "stub_IDFromString str =
     (if length str \<noteq> 16 then (None, Some ErrInvalidIDLength)
      else
        (case decode_hex str 0 of
           None \<Rightarrow> (None, Some ErrInvalidID)
         | Some n \<Rightarrow>
             if n = 0 then (None, Some ErrInvalidID) else (Some (of_nat n), None)))"

text \<open>
  A runtime in which a point is its own line, the gzip writer collects what is written
  and, when closed, puts it into the buffer behind a two-byte header, and the goroutines
  of a fan-out make their calls from the last to the first and then write their log
  entries from the first to the last.
\<close>

definition stub_runtime :: "bool \<Rightarrow> (string, bytes \<times> bytes) runtime" where
  "stub_runtime localFirst =
     \<lparr>ToSql = (\<lambda>q. None),
      IDFromString = stub_IDFromString,
      PrecisionString = (\<lambda>p precision. p),
      gzip_NewWriter = ([], []),
      gzw_Write = (\<lambda>c z. (None, (fst z @ c, snd z))),
      gzw_Close = (\<lambda>z. (None, (fst z, snd z @ ''GZ'' @ fst z))),
      buf_Bytes = snd,
      local_first = localFirst,
      go_schedule = (\<lambda>ids. rev [0..<length ids] @ [0..<length ids])\<rparr>"

definition stub_gunzip :: "bytes \<Rightarrow> bytes option" where
  "stub_gunzip b = (if take 2 b = ''GZ'' then Some (drop 2 b) else None)"

definition world0 :: "'db \<Rightarrow> ('db, (ID \<times> bytes) list, string list) world" where
  "world0 d = \<lparr>db = d, queues = [], tsm = [], ids_issued = 0, trace = []\<rparr>"

text \<open>Requests and rows for concrete runs, and queue managers with one failing operation.\<close>

definition example_request :: CreateReplicationRequest where
  "example_request =
     \<lparr>req_OrgID = 1, req_Name = ''r1'', req_Description = None, req_RemoteID = 2,
      req_LocalBucketID = 3, req_RemoteBucketID = 4, req_MaxQueueSizeBytes = 1073741824,
      req_DropNonRetryableData = False\<rparr>"

definition example_update :: UpdateReplicationRequest where
  "example_update =
     \<lparr>upd_Name = None, upd_Description = None, upd_RemoteID = None, upd_RemoteBucketID = None,
      upd_MaxQueueSizeBytes = Some 4096, upd_DropNonRetryableData = None\<rparr>"

definition example_replication :: Replication where
  "example_replication =
     \<lparr>ID = 7, OrgID = 1, Name = ''r1'', Description = None, RemoteID = 2, LocalBucketID = 3,
      RemoteBucketID = 4, MaxQueueSizeBytes = 4096, CurrentQueueSizeBytes = 0,
      LatestResponseCode = None, LatestErrorMessage = None, DropNonRetryableData = False\<rparr>"

definition cleanup_fails :: "event \<Rightarrow> error option" where
  "cleanup_fails e =
     (case e of DeleteQueueCall i \<Rightarrow> Some (Opaque ''directory not removed'') | _ \<Rightarrow> None)"

definition resize_fails :: "event \<Rightarrow> error option" where
  "resize_fails e =
     (case e of UpdateMaxQueueSizeCall i v \<Rightarrow> Some (Opaque ''queue not found'') | _ \<Rightarrow> None)"

definition one_fails :: "ID \<Rightarrow> event \<Rightarrow> error option" where
  "one_fails x e = (if e = DeleteQueueCall x then Some (Opaque ''directory not removed'') else None)"

section \<open>Basic facts about the trace\<close>

lemma emit_simps [simp]:
  "trace (emit e w) = trace w @ [e]"
  "db (emit e w) = db w"
  "queues (emit e w) = queues w"
  "tsm (emit e w) = tsm w"
  "ids_issued (emit e w) = ids_issued w"
  by (simp_all add: emit_def)

lemma wg_done_nothing_left: "wg_done gs \<Longrightarrow> ready gs = {#} \<and> pending gs = {#}"
  by (induction gs) (simp_all add: wg_done_def)

lemma ready_update:
  "k < length gs \<Longrightarrow> ready (gs[k := g]) + ready [gs ! k] = ready gs + ready [g]"
proof (induction gs arbitrary: k)
  case Nil
  then show ?case by simp
next
  case (Cons a gs)
  show ?case
  proof (cases k)
    case 0
    then show ?thesis by simp
  next
    case (Suc j)
    with Cons.prems have "j < length gs" by simp
    from Cons.IH [OF this] show ?thesis using Suc by (simp add: ac_simps)
  qed
qed

lemma pending_update:
  "k < length gs \<Longrightarrow> pending (gs[k := g]) + pending [gs ! k] = pending gs + pending [g]"
proof (induction gs arbitrary: k)
  case Nil
  then show ?case by simp
next
  case (Cons a gs)
  show ?case
  proof (cases k)
    case 0
    then show ?thesis by simp
  next
    case (Suc j)
    with Cons.prems have "j < length gs" by simp
    from Cons.IH [OF this] show ?thesis using Suc by (simp add: ac_simps)
  qed
qed

lemma failures_Cons:
  "failures ((k, res) # rs) = (case res of Some err \<Rightarrow> [(k, err)] | None \<Rightarrow> []) @ failures rs"
  by (simp add: failures_def)

lemma failures_Nil [simp]: "failures [] = []"
  by (simp add: failures_def)

lemma fan_out_trace:
  assumes "fan_out s data n ks gs w = Some w'"
  shows "\<exists>ev. trace w' = trace w @ ev \<and> db w' = db w \<and> tsm w' = tsm w
           \<and> (\<forall>e \<in> set ev. is_EnqueueDataCall e \<or> is_Log e)
           \<and> filter is_EnqueueDataCall ev = map (\<lambda>i. EnqueueDataCall i data n) (called_ids ev)
           \<and> mset (called_ids ev) = ready gs
           \<and> mset (filter is_Log ev) =
               image_mset enqueue_failure_log
                 (pending gs + mset (failures (call_results
                    (\<lambda>i. EnqueueData (durableQueueManager s) i data n) (called_ids ev) (queues w))))
           \<and> (\<forall>m. mset (filter is_Log (take m ev)) \<subseteq>#
                 image_mset enqueue_failure_log
                   (pending gs + mset (failures (call_results
                      (\<lambda>i. EnqueueData (durableQueueManager s) i data n)
                      (called_ids (take m ev)) (queues w)))))"
  using assms
proof (induction ks arbitrary: gs w)
  case Nil
  then have "wg_done gs" and "w' = w" by (simp_all split: if_splits)
  then show ?case using wg_done_nothing_left [of gs] by simp
next
  case (Cons k ks)
  let ?m = "\<lambda>i. EnqueueData (durableQueueManager s) i data n"
  show ?case
  proof (cases "wg_done gs")
    case True
    with Cons.prems have "w' = w" by simp
    then show ?thesis using wg_done_nothing_left [OF True] by simp
  next
    case False
    show ?thesis
    proof (cases "k < length gs")
      case outside: False
      with \<open>\<not> wg_done gs\<close> Cons.prems have "fan_out s data n ks gs w = Some w'" by simp
      from Cons.IH [OF this] show ?thesis .
    next
      case inside: True
      show ?thesis
      proof (cases "gs ! k")
        case Finished
        then have same: "gs[k := Finished] = gs" by (metis list_update_id)
        from Cons.prems False inside Finished
        have "fan_out s data n ks gs w = Some w'"
          by (simp add: run_goroutine_def same)
        from Cons.IH [OF this] show ?thesis .
      next
        case (Failed i err)
        let ?w1 = "emit (enqueue_failure_log (i, err)) w"
        let ?gs1 = "gs[k := Finished]"
        from Cons.prems False inside Failed
        have "fan_out s data n ks ?gs1 ?w1 = Some w'"
          by (simp add: run_goroutine_def enqueue_failure_log_def)
        from Cons.IH [OF this] obtain ev where
          tr: "trace w' = trace ?w1 @ ev" and fr: "db w' = db ?w1" "tsm w' = tsm ?w1"
          and only: "\<forall>e \<in> set ev. is_EnqueueDataCall e \<or> is_Log e"
          and calls: "filter is_EnqueueDataCall ev = map (\<lambda>i. EnqueueDataCall i data n) (called_ids ev)"
          and rd: "mset (called_ids ev) = ready ?gs1"
          and logs: "mset (filter is_Log ev) = image_mset enqueue_failure_log
              (pending ?gs1 + mset (failures (call_results ?m (called_ids ev) (queues ?w1))))"
          and sofar: "\<And>m. mset (filter is_Log (take m ev)) \<subseteq># image_mset enqueue_failure_log
              (pending ?gs1 + mset (failures (call_results ?m (called_ids (take m ev)) (queues ?w1))))"
          by blast
        have r: "ready ?gs1 = ready gs"
          using ready_update [OF inside, of Finished] Failed by simp
        have p: "pending gs = pending ?gs1 + {#(i, err)#}"
          using pending_update [OF inside, of Finished] Failed by simp
        let ?ev = "enqueue_failure_log (i, err) # ev"
        have "trace w' = trace w @ ?ev" using tr by simp
        moreover have "db w' = db w" "tsm w' = tsm w" using fr by simp_all
        moreover have "\<forall>e \<in> set ?ev. is_EnqueueDataCall e \<or> is_Log e"
          using only by (simp add: enqueue_failure_log_def)
        moreover have c: "called_ids ?ev = called_ids ev"
          by (simp add: enqueue_failure_log_def)
        moreover have "filter is_EnqueueDataCall ?ev =
            map (\<lambda>i. EnqueueDataCall i data n) (called_ids ?ev)"
          using calls by (simp add: enqueue_failure_log_def)
        moreover have "mset (called_ids ?ev) = ready gs"
          using rd r c by simp
        moreover have "mset (filter is_Log ?ev) = image_mset enqueue_failure_log
            (pending gs + mset (failures (call_results ?m (called_ids ?ev) (queues w))))"
          unfolding c p using logs by (simp add: enqueue_failure_log_def)
        moreover have "\<forall>m. mset (filter is_Log (take m ?ev)) \<subseteq># image_mset enqueue_failure_log
            (pending gs + mset (failures (call_results ?m (called_ids (take m ?ev)) (queues w))))"
        proof
          fix m
          show "mset (filter is_Log (take m ?ev)) \<subseteq># image_mset enqueue_failure_log
              (pending gs + mset (failures (call_results ?m (called_ids (take m ?ev)) (queues w))))"
          proof (cases m)
            case 0
            then show ?thesis by simp
          next
            case (Suc m')
            have "called_ids (take m ?ev) = called_ids (take m' ev)"
              using Suc by (simp add: enqueue_failure_log_def)
            moreover have "mset (filter is_Log (take m ?ev)) =
                add_mset (enqueue_failure_log (i, err)) (mset (filter is_Log (take m' ev)))"
              using Suc by (simp add: enqueue_failure_log_def)
            ultimately show ?thesis
              unfolding p using sofar [of m'] by simp
          qed
        qed
        ultimately show ?thesis by blast
      next
        case (Ready i)
        obtain res q where call: "?m i (queues w) = (res, q)"
          by (cases "?m i (queues w)")
        let ?w1 = "emit (EnqueueDataCall i data n) (w\<lparr>queues := q\<rparr>)"
        let ?g = "case res of Some err \<Rightarrow> Failed i err | None \<Rightarrow> Finished"
        let ?gs1 = "gs[k := ?g]"
        have step: "run_goroutine s data n (Ready i) w = (?g, ?w1)"
          using call by (simp add: run_goroutine_def dqm_EnqueueData_def call_queue_def
              split: option.splits)
        from Cons.prems False inside Ready step
        have "fan_out s data n ks ?gs1 ?w1 = Some w'"
          by simp
        from Cons.IH [OF this] obtain ev where
          tr: "trace w' = trace ?w1 @ ev" and fr: "db w' = db ?w1" "tsm w' = tsm ?w1"
          and only: "\<forall>e \<in> set ev. is_EnqueueDataCall e \<or> is_Log e"
          and calls: "filter is_EnqueueDataCall ev = map (\<lambda>i. EnqueueDataCall i data n) (called_ids ev)"
          and rd: "mset (called_ids ev) = ready ?gs1"
          and logs: "mset (filter is_Log ev) = image_mset enqueue_failure_log
              (pending ?gs1 + mset (failures (call_results ?m (called_ids ev) (queues ?w1))))"
          and sofar: "\<And>m. mset (filter is_Log (take m ev)) \<subseteq># image_mset enqueue_failure_log
              (pending ?gs1 + mset (failures (call_results ?m (called_ids (take m ev)) (queues ?w1))))"
          by blast
        have r: "ready gs = ready ?gs1 + {#i#}"
          using ready_update [OF inside, of ?g] Ready by (simp split: option.splits)
        have p: "pending ?gs1 = pending gs + mset (case res of Some err \<Rightarrow> [(i, err)] | None \<Rightarrow> [])"
          using pending_update [OF inside, of ?g] Ready by (simp split: option.splits)
        let ?ev = "EnqueueDataCall i data n # ev"
        have c: "called_ids ?ev = i # called_ids ev" by simp
        have f: "failures (call_results ?m (called_ids ?ev) (queues w)) =
            (case res of Some err \<Rightarrow> [(i, err)] | None \<Rightarrow> []) @
              failures (call_results ?m (called_ids ev) (queues ?w1))"
          unfolding c using call by (simp add: failures_Cons)
        have "trace w' = trace w @ ?ev" using tr by simp
        moreover have "db w' = db w" "tsm w' = tsm w" using fr by simp_all
        moreover have "\<forall>e \<in> set ?ev. is_EnqueueDataCall e \<or> is_Log e"
          using only by simp
        moreover have "filter is_EnqueueDataCall ?ev =
            map (\<lambda>i. EnqueueDataCall i data n) (called_ids ?ev)"
          using calls by simp
        moreover have "mset (called_ids ?ev) = ready gs"
          using rd r by simp
        moreover have "mset (filter is_Log ?ev) = image_mset enqueue_failure_log
            (pending gs + mset (failures (call_results ?m (called_ids ?ev) (queues w))))"
          unfolding f using logs p by (simp add: ac_simps)
        moreover have "\<forall>m. mset (filter is_Log (take m ?ev)) \<subseteq># image_mset enqueue_failure_log
            (pending gs + mset (failures (call_results ?m (called_ids (take m ?ev)) (queues w))))"
        proof
          fix m
          show "mset (filter is_Log (take m ?ev)) \<subseteq># image_mset enqueue_failure_log
              (pending gs + mset (failures (call_results ?m (called_ids (take m ?ev)) (queues w))))"
          proof (cases m)
            case 0
            then show ?thesis by simp
          next
            case (Suc m')
            have "failures (call_results ?m (called_ids (take m ?ev)) (queues w)) =
                (case res of Some err \<Rightarrow> [(i, err)] | None \<Rightarrow> []) @
                  failures (call_results ?m (called_ids (take m' ev)) (queues ?w1))"
              using Suc call by (simp add: failures_Cons)
            moreover have "mset (filter is_Log (take m ?ev)) = mset (filter is_Log (take m' ev))"
              using Suc by simp
            ultimately show ?thesis
              using sofar [of m'] p by (simp add: ac_simps)
          qed
        qed
        ultimately show ?thesis by blast
      qed
    qed
  qed
qed

lemma run_goroutine_steps:
  "steps_left (fst (run_goroutine s data n g w)) \<le> steps_left g - 1"
  by (cases g)
    (simp_all add: run_goroutine_def steps_left_def split: prod.splits option.splits)

lemma steps_left_none: "steps_left g = 0 \<longleftrightarrow> g = Finished"
  by (cases g) (simp_all add: steps_left_def)

lemma fan_out_returns:
  "\<forall>k<length gs. steps_left (gs ! k) \<le> count_list ks k \<Longrightarrow>
     \<exists>w'. fan_out s data n ks gs w = Some w'"
proof (induction ks arbitrary: gs w)
  case Nil
  then have "\<forall>k<length gs. gs ! k = Finished"
    by (simp add: steps_left_none)
  then have "wg_done gs" by (simp add: wg_done_def list_all_length)
  then show ?case by simp
next
  case (Cons k ks)
  show ?case
  proof (cases "wg_done gs")
    case True
    then show ?thesis by simp
  next
    case False
    show ?thesis
    proof (cases "k < length gs")
      case outside: False
      then have "\<forall>j<length gs. steps_left (gs ! j) \<le> count_list ks j"
        using Cons.prems by auto
      from Cons.IH [OF this, of w] show ?thesis using False outside by simp
    next
      case inside: True
      obtain g w1 where step: "run_goroutine s data n (gs ! k) w = (g, w1)"
        by (cases "run_goroutine s data n (gs ! k) w")
      have less: "steps_left g \<le> steps_left (gs ! k) - 1"
        using run_goroutine_steps [of s data n "gs ! k" w] step by simp
      have "\<forall>j<length (gs[k := g]). steps_left (gs[k := g] ! j) \<le> count_list ks j"
      proof (intro allI impI)
        fix j assume j: "j < length (gs[k := g])"
        show "steps_left (gs[k := g] ! j) \<le> count_list ks j"
        proof (cases "j = k")
          case True
          have "steps_left (gs ! k) \<le> Suc (count_list ks k)"
            using Cons.prems inside by auto
          with less True j show ?thesis by simp
        next
          case False
          with Cons.prems j show ?thesis by auto
        qed
      qed
      from Cons.IH [OF this, of w1] show ?thesis using False inside step by simp
    qed
  qed
qed

lemma ready_new [simp]: "ready (map Ready ids) = mset ids"
  by (induction ids) simp_all

lemma pending_new [simp]: "pending (map Ready ids) = {#}"
  by (induction ids) simp_all

lemma fan_out_fair:
  assumes "\<forall>k<length ids. 2 \<le> count_list ks k"
  shows "\<exists>w' ev. fan_out s data n ks (map Ready ids) w = Some w'
           \<and> trace w' = trace w @ ev \<and> db w' = db w \<and> tsm w' = tsm w
           \<and> (\<forall>e \<in> set ev. is_EnqueueDataCall e \<or> is_Log e)
           \<and> mset (filter is_EnqueueDataCall ev) =
               image_mset (\<lambda>i. EnqueueDataCall i data n) (mset ids)
           \<and> mset (filter is_Log ev) =
               image_mset enqueue_failure_log
                 (mset (failures (call_results
                    (\<lambda>i. EnqueueData (durableQueueManager s) i data n) (called_ids ev) (queues w))))
           \<and> (\<forall>m. mset (filter is_Log (take m ev)) \<subseteq>#
                 image_mset enqueue_failure_log
                   (mset (failures (call_results
                      (\<lambda>i. EnqueueData (durableQueueManager s) i data n)
                      (called_ids (take m ev)) (queues w)))))"
proof -
  have "\<forall>k<length (map Ready ids). steps_left (map Ready ids ! k) \<le> count_list ks k"
    using assms by (simp add: steps_left_def)
  from fan_out_returns [OF this] obtain w' where
    run: "fan_out s data n ks (map Ready ids) w = Some w'" by blast
  from fan_out_trace [OF run] obtain ev where
    tr: "trace w' = trace w @ ev" "db w' = db w" "tsm w' = tsm w"
    and only: "\<forall>e \<in> set ev. is_EnqueueDataCall e \<or> is_Log e"
    and calls: "filter is_EnqueueDataCall ev = map (\<lambda>i. EnqueueDataCall i data n) (called_ids ev)"
    and rd: "mset (called_ids ev) = mset ids"
    and logs: "mset (filter is_Log ev) = image_mset enqueue_failure_log
        (mset (failures (call_results
           (\<lambda>i. EnqueueData (durableQueueManager s) i data n) (called_ids ev) (queues w))))"
    and sofar: "\<forall>m. mset (filter is_Log (take m ev)) \<subseteq># image_mset enqueue_failure_log
        (mset (failures (call_results
           (\<lambda>i. EnqueueData (durableQueueManager s) i data n) (called_ids (take m ev)) (queues w))))"
    by auto
  have "mset (filter is_EnqueueDataCall ev) =
      image_mset (\<lambda>i. EnqueueDataCall i data n) (mset ids)"
    unfolding calls using rd by (metis mset_map)
  with run tr only logs sofar show ?thesis by blast
qed

lemma serialize_writes:
  "serialize rt points z = (None, z') \<Longrightarrow>
     \<exists>z1. gzw_writes rt (map (\<lambda>p. PrecisionString rt p ''ns'' @ [newline]) points) z = (None, z1)
       \<and> gzw_Close rt z1 = (None, z')"
proof (induction points arbitrary: z)
  case Nil
  then show ?case by (simp split: prod.splits option.splits)
next
  case (Cons p ps)
  then show ?case by (simp split: prod.splits option.splits)
qed

lemma WritePoints_fan_out_run:
  assumes "ToSql rt (select_ids_stmt orgID bucketID) = None"
    and "query_ids (store s) (select_ids_stmt orgID bucketID) (db w) = (Inr ids, d)"
    and "ids \<noteq> []"
    and "localWriter s orgID bucketID points (tsm w) = (None, l)"
    and "serialize rt points (gzip_NewWriter rt) = (None, z)"
  shows "WritePoints rt s orgID bucketID points w =
           map_option (Pair None)
             (fan_out s (buf_Bytes rt z) (length points) (go_schedule rt ids) (map Ready ids)
                ((emit (Exec (select_ids_stmt orgID bucketID)) (w\<lparr>db := d\<rparr>))\<lparr>tsm := l\<rparr>))"
  using assms
  by (simp add: WritePoints_def SelectContext_def localWriter_WritePoints_def egroup_Wait_def
      split: option.splits)

lemmas stub_defs =
  stub_runtime_def stub_service_def stub_store_def stub_queues_def stub_writer_def world0_def

lemmas call_defs =
  SelectContext_def GetContext_def call_queue_def emit_def localWriter_WritePoints_def
  idGenerator_ID_def dqm_InitializeQueue_def dqm_DeleteQueue_def dqm_UpdateMaxQueueSize_def
  dqm_CurrentQueueSizes_def dqm_EnqueueData_def

lemma stub_gzw_writes:
  "gzw_writes (stub_runtime b) chunks z = (None, (fst z @ concat chunks, snd z))"
  by (induction chunks arbitrary: z) (simp_all add: stub_runtime_def)

lemma stub_gzip_inverse: "gzip_inverse (stub_runtime b) stub_gunzip"
  by (simp add: gzip_inverse_def stub_gzw_writes)
    (simp add: stub_runtime_def stub_gunzip_def)

lemma stub_schedule_fair:
  "\<forall>k<length [x, y]. 2 \<le> count_list (go_schedule (stub_runtime b) [x, y]) k"
  by (auto simp add: stub_runtime_def less_Suc_eq numeral_2_eq_2)

lemma cleanupQueue_effect:
  assumes "DeleteQueue (durableQueueManager s) newID (queues w) = (res, q)"
  shows "cleanupQueue s newID w = w\<lparr>queues := q, trace := trace w @ cleanup_events newID res\<rparr>"
  using assms
  by (simp add: cleanupQueue_def dqm_DeleteQueue_def call_queue_def emit_def cleanup_events_def
      split: option.splits)

lemma GetContext_trace:
  "GetContext query q w = (res, w1) \<Longrightarrow>
     trace w1 = trace w @ [Exec q] \<and> queues w1 = queues w \<and> tsm w1 = tsm w
       \<and> ids_issued w1 = ids_issued w"
  by (auto simp add: GetContext_def SelectContext_def split: prod.splits sum.splits list.splits)

lemma delete_queues_parsed:
  assumes "map (IDFromString rt) deleted = map (\<lambda>i. (Some i, None)) ids"
  shows "\<exists>w'. delete_queues rt s deleted errOccurred w =
             (Return (errOccurred \<or>
                failures (call_results (\<lambda>k. DeleteQueue (durableQueueManager s) (snd k))
                            (zip deleted ids) (queues w)) \<noteq> []), w')
           \<and> trace w' = trace w @ concat (map delete_events
                (call_results (\<lambda>k. DeleteQueue (durableQueueManager s) (snd k))
                   (zip deleted ids) (queues w)))
           \<and> db w' = db w"
  using assms
proof (induction deleted arbitrary: ids errOccurred w)
  case Nil
  then show ?case by simp
next
  case (Cons str deleted)
  then obtain i ids' where ids: "ids = i # ids'"
    by (cases ids) auto
  with Cons.prems have parse: "IDFromString rt str = (Some i, None)"
    and rest: "map (IDFromString rt) deleted = map (\<lambda>i. (Some i, None)) ids'"
    by simp_all
  obtain res q where call: "DeleteQueue (durableQueueManager s) i (queues w) = (res, q)"
    by (cases "DeleteQueue (durableQueueManager s) i (queues w)")
  show ?case
  proof (cases res)
    case None
    let ?w2 = "emit (DeleteQueueCall i) (w\<lparr>queues := q\<rparr>)"
    have step: "delete_queues rt s (str # deleted) errOccurred w =
        delete_queues rt s deleted errOccurred ?w2"
      using parse call None by (simp add: dqm_DeleteQueue_def call_queue_def)
    from Cons.IH [OF rest, of errOccurred ?w2] show ?thesis
      unfolding step ids using call None
      by (auto simp add: failures_Cons delete_events_def)
  next
    case (Some err)
    let ?w2 = "emit (deletion_failure_log err str) (emit (DeleteQueueCall i) (w\<lparr>queues := q\<rparr>))"
    have step: "delete_queues rt s (str # deleted) errOccurred w =
        delete_queues rt s deleted True ?w2"
      using parse call Some by (simp add: dqm_DeleteQueue_def call_queue_def)
    from Cons.IH [OF rest, of True ?w2] show ?thesis
      unfolding step ids using call Some
      by (auto simp add: failures_Cons delete_events_def)
  qed
qed

lemma calls_of_delete_events:
  "filter is_DeleteQueueCall (concat (map delete_events rs)) =
     map (\<lambda>r. DeleteQueueCall (snd (fst r))) rs"
  by (induction rs) (simp_all add: delete_events_def deletion_failure_log_def split: option.splits)

lemma logs_of_delete_events:
  "filter is_Log (concat (map delete_events rs)) =
     map (\<lambda>(k, err). deletion_failure_log err (fst k)) (failures rs)"
  by (induction rs)
    (auto simp add: delete_events_def deletion_failure_log_def failures_Cons split: option.splits)

lemma map_key_call_results: "map (\<lambda>r. g (fst r)) (call_results m ks q) = map g ks"
  by (induction ks arbitrary: q) (simp_all split: prod.splits)

lemma map_snd_zip_parsed:
  "map f deleted = map g ids \<Longrightarrow> map (\<lambda>k. h (snd k)) (zip deleted ids) = map h ids"
proof -
  assume "map f deleted = map g ids"
  then have "length deleted = length ids" by (metis length_map)
  then show ?thesis by (induction deleted ids rule: list_induct2) simp_all
qed

lemma DeleteBucketReplications_parsed:
  assumes "ToSql rt (delete_bucket_replications_stmt localBucketID) = None"
    and "query_strings (store s) (delete_bucket_replications_stmt localBucketID) (db w)
           = (Inr deleted, d)"
    and "map (IDFromString rt) deleted = map (\<lambda>i. (Some i, None)) ids"
  shows "let results = call_results (\<lambda>k. DeleteQueue (durableQueueManager s) (snd k))
                          (zip deleted ids) (queues w);
             new = drop (Suc (length (trace w)))
                     (trace (snd (DeleteBucketReplications rt s localBucketID w)))
         in fst (DeleteBucketReplications rt s localBucketID w) =
              Return (if failures results = [] then None
                      else Some (bucket_deletion_error localBucketID))
          \<and> filter is_DeleteQueueCall new = map DeleteQueueCall ids
          \<and> filter is_Log new =
              map (\<lambda>(k, err). deletion_failure_log err (fst k)) (failures results)
                @ [bucket_deleted_log localBucketID deleted]"
proof -
  let ?q = "delete_bucket_replications_stmt localBucketID"
  let ?w1 = "emit (Exec ?q) (w\<lparr>db := d\<rparr>)"
  let ?rs = "call_results (\<lambda>k. DeleteQueue (durableQueueManager s) (snd k))
               (zip deleted ids) (queues w)"
  obtain w2 where loop: "delete_queues rt s deleted False ?w1 = (Return (failures ?rs \<noteq> []), w2)"
    and tr: "trace w2 = trace w @ [Exec ?q] @ concat (map delete_events ?rs)"
    using delete_queues_parsed [OF assms(3), of s False ?w1] by auto
  have run: "DeleteBucketReplications rt s localBucketID w =
      (Return (if failures ?rs = [] then None else Some (bucket_deletion_error localBucketID)),
       emit (bucket_deleted_log localBucketID deleted) w2)"
    using assms(1,2) loop
    by (simp add: DeleteBucketReplications_def SelectContext_def bucket_deleted_log_def Let_def)
  have calls: "map (\<lambda>r. DeleteQueueCall (snd (fst r))) ?rs = map DeleteQueueCall ids"
  proof -
    have "map (\<lambda>r. DeleteQueueCall (snd (fst r))) ?rs =
        map (\<lambda>k. DeleteQueueCall (snd k)) (zip deleted ids)"
      by (rule map_key_call_results [where g = "\<lambda>k. DeleteQueueCall (snd k)"])
    also have "\<dots> = map DeleteQueueCall ids"
      by (rule map_snd_zip_parsed [OF assms(3)])
    finally show ?thesis .
  qed
  show ?thesis
    unfolding run Let_def
    by (simp add: tr calls_of_delete_events logs_of_delete_events calls bucket_deleted_log_def)
qed

lemma DeleteReplication_queue_result:
  assumes "ToSql rt (delete_replication_stmt rid) = None"
    and "query_ids (store s) (delete_replication_stmt rid) (db w) = (Inr (x # xs), d1)"
    and "DeleteQueue (durableQueueManager s) rid (queues w) = (res, q1)"
  shows "DeleteReplication rt s rid w =
           (res, w\<lparr>db := d1, queues := q1,
                   trace := trace w @ [Exec (delete_replication_stmt rid), DeleteQueueCall rid]\<rparr>)"
  using assms
  by (cases res)
    (simp_all add: DeleteReplication_def GetContext_def SelectContext_def dqm_DeleteQueue_def
      call_queue_def emit_def)




lemma points_not_bytes: "points_vec \<noteq> bytes_vec"
  unfolding points_vec_def bytes_vec_def by simp


section \<open>WritePoints: a failed task suppresses the fan-out\<close>

text \<open>
  Claim C1. When \<open>WritePoints\<close> finds at least one matching replication and the local
  write or the serialization returns an error, \<open>WritePoints\<close> returns the error of one
  of the two tasks (the error of the failed one, when only one fails), the only event it
  leaves in the trace is its \<open>SELECT\<close>, so \<open>EnqueueData\<close> is not called, and the state
  of the queues is the one before the call.
\<close>

theorem WritePoints_task_error_no_enqueue:
  assumes "ToSql rt (select_ids_stmt orgID bucketID) = None"
    and "query_ids (store s) (select_ids_stmt orgID bucketID) (db w) = (Inr ids, d)"
    and "ids \<noteq> []"
    and "localWriter s orgID bucketID points (tsm w) = (errLocal, l)"
    and "serialize rt points (gzip_NewWriter rt) = (errSerialize, z)"
    and "errLocal \<noteq> None \<or> errSerialize \<noteq> None"
  shows "\<exists>err w'. WritePoints rt s orgID bucketID points w = Some (Some err, w')
           \<and> Some err \<in> {errLocal, errSerialize}
           \<and> queues w' = queues w
           \<and> trace w' = trace w @ [Exec (select_ids_stmt orgID bucketID)]
           \<and> \<not> (\<exists>e \<in> set (trace w') - set (trace w). is_EnqueueDataCall e)"
  using assms
  by (cases errLocal; cases errSerialize; cases "local_first rt")
    (auto simp add: WritePoints_def SelectContext_def localWriter_WritePoints_def
      egroup_Wait_def select_ids_stmt_def)

theorem WritePoints_task_error_no_enqueue_witness:
  "\<exists>w'. WritePoints (stub_runtime True)
            (stub_service (stub_store (Inr [1, 2]) (Inr []) (Inr [])) (\<lambda>e. None)
               (Some (Opaque ''engine closed'')))
            5 6 [''p1'', ''p2''] (world0 []) = Some (Some (Opaque ''engine closed''), w')
     \<and> queues w' = [] \<and> trace w' = [Exec (select_ids_stmt 5 6)]"
proof -
  let ?rt = "stub_runtime True :: (string, bytes \<times> bytes) runtime"
  let ?s = "stub_service (stub_store (Inr [1, 2]) (Inr []) (Inr [])) (\<lambda>e. None)
              (Some (Opaque ''engine closed''))"
  let ?w = "world0 [] :: (stmt list, (ID \<times> bytes) list, string list) world"
  have h1: "ToSql ?rt (select_ids_stmt 5 6) = None"
    by (simp add: stub_defs)
  have h2: "query_ids (store ?s) (select_ids_stmt 5 6) (db ?w) = (Inr [1, 2], [select_ids_stmt 5 6])"
    by (simp add: stub_defs)
  have h3: "[1, 2 :: ID] \<noteq> []" by simp
  have h4: "localWriter ?s 5 6 [''p1'', ''p2''] (tsm ?w) = (Some (Opaque ''engine closed''), [])"
    by (simp add: stub_defs)
  have h5: "serialize ?rt [''p1'', ''p2''] (gzip_NewWriter ?rt) =
      (None, (''p1'' @ [newline] @ ''p2'' @ [newline], ''GZ'' @ ''p1'' @ [newline] @ ''p2'' @ [newline]))"
    by (simp add: stub_defs)
  have h6: "Some (Opaque ''engine closed'') \<noteq> None \<or> (None :: error option) \<noteq> None" by simp
  show ?thesis
    using WritePoints_task_error_no_enqueue [OF h1 h2 h3 h4 h5 h6]
    by (auto simp add: world0_def)
qed

section \<open>WritePoints: the fan-out\<close>



section \<open>WritePoints: the record that is enqueued\<close>

text \<open>
  Claim C4. For a non-empty list of points and a successful \<open>WritePoints\<close> with at least
  one matching replication, one record is passed to \<open>EnqueueData\<close> for every matched
  replication, the same for all, and it gunzips to the nanosecond line protocol of the
  points, each followed by a newline, in the order of the points. \<open>gunzip\<close> is any
  function that inverts the gzip writer of the runtime; the scheduler lets every
  goroutine of the fan-out take its two steps.
\<close>

theorem WritePoints_record_gunzips:
  assumes "ToSql rt (select_ids_stmt orgID bucketID) = None"
    and "query_ids (store s) (select_ids_stmt orgID bucketID) (db w) = (Inr ids, d)"
    and "ids \<noteq> []"
    and "localWriter s orgID bucketID points (tsm w) = (None, l)"
    and "serialize rt points (gzip_NewWriter rt) = (None, z)"
    and "\<forall>k<length ids. 2 \<le> count_list (go_schedule rt ids) k"
    and "points \<noteq> []"
    and "gzip_inverse rt gunzip"
  shows "\<exists>w' data. WritePoints rt s orgID bucketID points w = Some (None, w')
           \<and> gunzip data = Some (line_protocol rt points)
           \<and> mset (filter is_EnqueueDataCall (drop (Suc (length (trace w))) (trace w'))) =
               image_mset (\<lambda>i. EnqueueDataCall i data (length points)) (mset ids)"
proof -
  let ?data = "buf_Bytes rt z"
  let ?n = "length points"
  let ?w2 = "(emit (Exec (select_ids_stmt orgID bucketID)) (w\<lparr>db := d\<rparr>))\<lparr>tsm := l\<rparr>"
  from fan_out_fair [OF assms(6), of s ?data ?n ?w2] obtain w' ev where
    run: "fan_out s ?data ?n (go_schedule rt ids) (map Ready ids) ?w2 = Some w'"
    and tr: "trace w' = trace ?w2 @ ev"
    and calls: "mset (filter is_EnqueueDataCall ev) =
        image_mset (\<lambda>i. EnqueueDataCall i ?data ?n) (mset ids)"
    by blast
  have ret: "WritePoints rt s orgID bucketID points w = Some (None, w')"
    using WritePoints_fan_out_run [OF assms(1-5)] run by simp
  obtain z1 where
    "gzw_writes rt (map (\<lambda>p. PrecisionString rt p ''ns'' @ [newline]) points) (gzip_NewWriter rt)
       = (None, z1)"
    and "gzw_Close rt z1 = (None, z)"
    using serialize_writes [OF assms(5)] by blast
  with assms(8) have gz: "gunzip ?data = Some (line_protocol rt points)"
    unfolding gzip_inverse_def line_protocol_def by blast
  have "drop (Suc (length (trace w))) (trace w') = ev"
    using tr by simp
  with ret gz calls show ?thesis by blast
qed

theorem WritePoints_record_gunzips_witness:
  "\<exists>w' data. WritePoints (stub_runtime False)
            (stub_service (stub_store (Inr [1, 2]) (Inr []) (Inr [])) (\<lambda>e. None) None)
            5 6 [''p1'', ''p2''] (world0 []) = Some (None, w')
     \<and> stub_gunzip data = Some (''p1'' @ [newline] @ ''p2'' @ [newline])
     \<and> mset (filter is_EnqueueDataCall (drop 1 (trace w'))) =
         {#EnqueueDataCall 1 data 2, EnqueueDataCall 2 data 2#}"
proof -
  let ?rt = "stub_runtime False :: (string, bytes \<times> bytes) runtime"
  let ?s = "stub_service (stub_store (Inr [1, 2]) (Inr []) (Inr [])) (\<lambda>e. None) None"
  let ?w = "world0 [] :: (stmt list, (ID \<times> bytes) list, string list) world"
  have h1: "ToSql ?rt (select_ids_stmt 5 6) = None"
    by (simp add: stub_defs)
  have h2: "query_ids (store ?s) (select_ids_stmt 5 6) (db ?w) = (Inr [1, 2], [select_ids_stmt 5 6])"
    by (simp add: stub_defs)
  have h3: "[1, 2 :: ID] \<noteq> []" by simp
  have h4: "localWriter ?s 5 6 [''p1'', ''p2''] (tsm ?w) = (None, [''p1'', ''p2''])"
    by (simp add: stub_defs)
  have h5: "serialize ?rt [''p1'', ''p2''] (gzip_NewWriter ?rt) =
      (None, (''p1'' @ [newline] @ ''p2'' @ [newline], ''GZ'' @ ''p1'' @ [newline] @ ''p2'' @ [newline]))"
    by (simp add: stub_defs)
  have h7: "[''p1'', ''p2''] \<noteq> []" by simp
  have lp: "line_protocol ?rt [''p1'', ''p2''] = ''p1'' @ [newline] @ ''p2'' @ [newline]"
    by (simp add: line_protocol_def stub_defs)
  show ?thesis
    using WritePoints_record_gunzips [OF h1 h2 h3 h4 h5 stub_schedule_fair h7 stub_gzip_inverse]
    by (auto simp add: lp world0_def numeral_2_eq_2)
qed

section \<open>CreateReplication: a failed insert\<close>

text \<open>
  Claim C3. When \<open>CreateReplication\<close> has initialized the queue of the new identifier
  and the insert into the catalog then fails, be it that the statement cannot be built or
  that \<open>GetContext\<close> returns an error, \<open>DeleteQueue\<close> is called for the new identifier;
  when that call fails a warning is logged, and the error returned does not depend on it:
  it is the error of the insert, and for a foreign-key violation reported by the database
  it is the \<open>EInvalid\<close> error \<open>remote %q not found\<close> for the remote identifier of the
  request, wrapping the error of the database.
\<close>

theorem CreateReplication_failed_insert_cleans_up:
  assumes bucket: "bucketService s (req_LocalBucketID request) = None"
    and newID: "newID = idGenerator s (ids_issued w)"
    and init: "InitializeQueue (durableQueueManager s) newID (req_MaxQueueSizeBytes request)
                 (queues w) = (None, q1)"
    and w2: "w2 = w\<lparr>queues := q1, ids_issued := Suc (ids_issued w),
                     trace := trace w @ [InitializeQueueCall newID (req_MaxQueueSizeBytes request)]\<rparr>"
    and fail: "ToSql rt (insert_replication_stmt newID request) = Some err \<and> w3 = w2
             \<or> ToSql rt (insert_replication_stmt newID request) = None
               \<and> GetContext (query_replications (store s)) (insert_replication_stmt newID request) w2
                   = (Inl err, w3)"
    and cleanup: "DeleteQueue (durableQueueManager s) newID q1 = (res, q2)"
  shows "CreateReplication rt s request w =
           (Inl (if ToSql rt (insert_replication_stmt newID request) = None
                    \<and> err = Sqlite3Error ErrConstraintForeignKey
                 then IError EInvalid (Sprintf ''remote %q not found'' [req_RemoteID request])
                        (Some err)
                 else err),
            w3\<lparr>queues := q2, trace := trace w3 @ cleanup_events newID res\<rparr>)"
proof -
  let ?w1 = "w\<lparr>ids_issued := Suc (ids_issued w)\<rparr>"
  have gen: "idGenerator_ID s w = (newID, ?w1)"
    using newID by (simp add: idGenerator_ID_def)
  have start: "dqm_InitializeQueue s newID (req_MaxQueueSizeBytes request) ?w1 = (None, w2)"
    using init w2 by (simp add: dqm_InitializeQueue_def call_queue_def emit_def)
  have fk: "isForeignKeyError err \<longleftrightarrow> err = Sqlite3Error ErrConstraintForeignKey"
    by (cases err) (simp_all add: isForeignKeyError_def)
  from fail show ?thesis
  proof
    assume a: "ToSql rt (insert_replication_stmt newID request) = Some err \<and> w3 = w2"
    then have q: "queues w3 = q1" using w2 by simp
    have "cleanupQueue s newID w3 = w3\<lparr>queues := q2, trace := trace w3 @ cleanup_events newID res\<rparr>"
      using cleanup q by (simp add: cleanupQueue_effect)
    with a show ?thesis
      using bucket gen start by (simp add: CreateReplication_def)
  next
    assume a: "ToSql rt (insert_replication_stmt newID request) = None
             \<and> GetContext (query_replications (store s)) (insert_replication_stmt newID request) w2
               = (Inl err, w3)"
    then have "queues w3 = queues w2"
      by (auto simp add: GetContext_def SelectContext_def split: prod.splits sum.splits list.splits)
    then have q: "queues w3 = q1" using w2 by simp
    have "cleanupQueue s newID w3 = w3\<lparr>queues := q2, trace := trace w3 @ cleanup_events newID res\<rparr>"
      using cleanup q by (simp add: cleanupQueue_effect)
    with a show ?thesis
      using bucket gen start by (simp add: CreateReplication_def fk errRemoteNotFound_def)
  qed
qed

theorem CreateReplication_failed_insert_cleans_up_witness:
  "\<exists>w'. CreateReplication (stub_runtime True)
       (stub_service (stub_store (Inr []) (Inl (Sqlite3Error 787)) (Inr [])) cleanup_fails None)
       example_request (world0 []) =
     (Inl (IError EInvalid (Sprintf ''remote %q not found'' [2]) (Some (Sqlite3Error 787))), w')
   \<and> drop 2 (trace w') =
       [DeleteQueueCall 1,
        Log WarnLevel ''durable queue remaining on disk after initialization failure''
          [ZapError (Opaque ''directory not removed''), ZapStringer ''id'' 1]]"
proof -
  let ?rt = "stub_runtime True :: (string, bytes \<times> bytes) runtime"
  let ?s = "stub_service (stub_store (Inr []) (Inl (Sqlite3Error 787)) (Inr [])) cleanup_fails None"
  let ?w = "world0 [] :: (stmt list, (ID \<times> bytes) list, string list) world"
  let ?q = "insert_replication_stmt 1 example_request"
  let ?w2 = "?w\<lparr>queues := [], ids_issued := Suc (ids_issued ?w),
                trace := trace ?w @ [InitializeQueueCall 1 (req_MaxQueueSizeBytes example_request)]\<rparr>"
  let ?w3 = "?w2\<lparr>db := [?q], trace := trace ?w2 @ [Exec ?q]\<rparr>"
  have h1: "bucketService ?s (req_LocalBucketID example_request) = None"
    by (simp add: stub_defs)
  have h2: "1 = idGenerator ?s (ids_issued ?w)"
    by (simp add: stub_defs)
  have h3: "InitializeQueue (durableQueueManager ?s) 1 (req_MaxQueueSizeBytes example_request)
      (queues ?w) = (None, [])"
    by (simp add: stub_defs cleanup_fails_def)
  have h5: "ToSql ?rt ?q = Some (Sqlite3Error 787) \<and> ?w3 = ?w2
      \<or> ToSql ?rt ?q = None
        \<and> GetContext (query_replications (store ?s)) ?q ?w2 = (Inl (Sqlite3Error 787), ?w3)"
    by (simp add: stub_defs call_defs)
  have h6: "DeleteQueue (durableQueueManager ?s) 1 [] = (Some (Opaque ''directory not removed''), [])"
    by (simp add: stub_defs cleanup_fails_def)
  have "ToSql ?rt ?q = None" by (simp add: stub_defs)
  then show ?thesis
    using CreateReplication_failed_insert_cleans_up [OF h1 h2 h3 refl h5 h6]
    by (simp add: ErrConstraintForeignKey_def example_request_def cleanup_events_def world0_def)
qed

section \<open>UpdateReplication: the resize of the queue\<close>

text \<open>
  Claim C5. When the request of \<open>UpdateReplication\<close> sets \<open>max_queue_size_bytes\<close> and the
  row of the catalog has been updated, \<open>UpdateMaxQueueSize(id, value)\<close> is the next call
  after the \<open>UPDATE\<close>. When it fails, a warning that the size of the queue does not match
  the one recorded in the database is logged, the error is returned, and the database stays
  as the \<open>UPDATE\<close> left it.
\<close>

theorem UpdateReplication_resize_after_catalog:
  assumes sql: "ToSql rt (update_replication_stmt rid request) = None"
    and row: "GetContext (query_replications (store s)) (update_replication_stmt rid request) w
                = (Inr r, w1)"
    and size: "upd_MaxQueueSizeBytes request = Some v"
    and resize: "UpdateMaxQueueSize (durableQueueManager s) rid v (queues w1) = (res, q')"
  shows "\<exists>out w'. UpdateReplication rt s rid request w = (out, w')
           \<and> take (length (trace w) + 2) (trace w') =
               trace w @ [Exec (update_replication_stmt rid request), UpdateMaxQueueSizeCall rid v]
           \<and> (\<forall>err. res = Some err \<longrightarrow>
                 out = Inl err
               \<and> w' = w1\<lparr>queues := q',
                         trace := trace w1 @ [UpdateMaxQueueSizeCall rid v, resize_warning rid]\<rparr>
               \<and> db w' = db w1)"
proof -
  have tr: "trace w1 = trace w @ [Exec (update_replication_stmt rid request)]"
    using GetContext_trace [OF row] by simp
  show ?thesis
  proof (cases res)
    case (Some err)
    then have "UpdateReplication rt s rid request w =
        (Inl err, w1\<lparr>queues := q',
                    trace := trace w1 @ [UpdateMaxQueueSizeCall rid v, resize_warning rid]\<rparr>)"
      using sql row size resize
      by (simp add: UpdateReplication_def dqm_UpdateMaxQueueSize_def call_queue_def emit_def
          resize_warning_def)
    then show ?thesis using Some by (simp add: tr)
  next
    case None
    let ?w2 = "w1\<lparr>queues := q', trace := trace w1 @ [UpdateMaxQueueSizeCall rid v]\<rparr>"
    obtain out w' where out: "UpdateReplication rt s rid request w = (out, w')"
      by (cases "UpdateReplication rt s rid request w")
    obtain sz q'' where sz: "CurrentQueueSizes (durableQueueManager s) [ID r] q' = (sz, q'')"
      by (cases "CurrentQueueSizes (durableQueueManager s) [ID r] q'")
    have "trace w' = trace w1 @ [UpdateMaxQueueSizeCall rid v, CurrentQueueSizesCall [ID r]]"
      using out None sql row size resize sz
      by (auto simp add: UpdateReplication_def dqm_UpdateMaxQueueSize_def call_queue_def emit_def
          dqm_CurrentQueueSizes_def split: sum.splits)
    then show ?thesis using out None by (simp add: tr)
  qed
qed

theorem UpdateReplication_resize_after_catalog_witness:
  "UpdateReplication (stub_runtime True)
       (stub_service (stub_store (Inr []) (Inr [example_replication]) (Inr [])) resize_fails None)
       7 example_update (world0 []) =
     (Inl (Opaque ''queue not found''),
      \<lparr>db = [update_replication_stmt 7 example_update], queues = [], tsm = [], ids_issued = 0,
       trace = [Exec (update_replication_stmt 7 example_update), UpdateMaxQueueSizeCall 7 4096,
                resize_warning 7]\<rparr>)"
proof -
  let ?rt = "stub_runtime True :: (string, bytes \<times> bytes) runtime"
  let ?s = "stub_service (stub_store (Inr []) (Inr [example_replication]) (Inr [])) resize_fails None"
  let ?w = "world0 [] :: (stmt list, (ID \<times> bytes) list, string list) world"
  let ?q = "update_replication_stmt 7 example_update"
  let ?w1 = "?w\<lparr>db := [?q], trace := [Exec ?q]\<rparr>"
  have h1: "ToSql ?rt ?q = None"
    by (simp add: stub_defs)
  have h2: "GetContext (query_replications (store ?s)) ?q ?w = (Inr example_replication, ?w1)"
    by (simp add: stub_defs call_defs)
  have h3: "upd_MaxQueueSizeBytes example_update = Some 4096"
    by (simp add: example_update_def)
  have h4: "UpdateMaxQueueSize (durableQueueManager ?s) 7 4096 (queues ?w1) =
      (Some (Opaque ''queue not found''), [])"
    by (simp add: stub_defs resize_fails_def)
  show ?thesis
    using UpdateReplication_resize_after_catalog [OF h1 h2 h3 h4]
    by (auto simp add: world0_def)
qed

section \<open>Deleting replications\<close>

text \<open>
  Claim C7. \<open>DeleteReplication\<close> returns the \<open>ENotFound\<close> error
  \<open>replication not found\<close> when its \<open>DELETE\<close> returns no row, and calls no queue
  operation then; \<open>DeleteBucketReplications\<close> returns success when its \<open>DELETE\<close> returns
  no row, and deletes no queue.
\<close>

theorem Delete_without_rows:
  assumes "ToSql rt (delete_replication_stmt rid) = None"
    and "query_ids (store s) (delete_replication_stmt rid) (db w) = (Inr [], d)"
    and "ToSql rt (delete_bucket_replications_stmt localBucketID) = None"
    and "query_strings (store s) (delete_bucket_replications_stmt localBucketID) (db w) = (Inr [], d')"
  shows "DeleteReplication rt s rid w =
           (Some (IError ENotFound (Sprintf ''replication not found'' []) None),
            w\<lparr>db := d, trace := trace w @ [Exec (delete_replication_stmt rid)]\<rparr>)
       \<and> fst (DeleteBucketReplications rt s localBucketID w) = Return None
       \<and> filter is_DeleteQueueCall (trace (snd (DeleteBucketReplications rt s localBucketID w)))
           = filter is_DeleteQueueCall (trace w)"
  using assms
  by (simp add: DeleteReplication_def DeleteBucketReplications_def GetContext_def
      SelectContext_def emit_def errReplicationNotFound_def Let_def)

theorem Delete_without_rows_witness:
  "DeleteReplication (stub_runtime True)
       (stub_service (stub_store (Inr []) (Inr []) (Inr [])) (\<lambda>e. None) None) 7 (world0 []) =
     (Some (IError ENotFound (Sprintf ''replication not found'' []) None),
      \<lparr>db = [delete_replication_stmt 7], queues = [], tsm = [], ids_issued = 0,
       trace = [Exec (delete_replication_stmt 7)]\<rparr>)
   \<and> fst (DeleteBucketReplications (stub_runtime True)
       (stub_service (stub_store (Inr []) (Inr []) (Inr [])) (\<lambda>e. None) None) 3 (world0 []))
       = Return None"
proof -
  let ?rt = "stub_runtime True :: (string, bytes \<times> bytes) runtime"
  let ?s = "stub_service (stub_store (Inr []) (Inr []) (Inr [])) (\<lambda>e. None) None"
  let ?w = "world0 [] :: (stmt list, (ID \<times> bytes) list, string list) world"
  have h1: "ToSql ?rt (delete_replication_stmt 7) = None"
    by (simp add: stub_defs)
  have h2: "query_ids (store ?s) (delete_replication_stmt 7) (db ?w) =
      (Inr [], [delete_replication_stmt 7])"
    by (simp add: stub_defs)
  have h3: "ToSql ?rt (delete_bucket_replications_stmt 3) = None"
    by (simp add: stub_defs)
  have h4: "query_strings (store ?s) (delete_bucket_replications_stmt 3) (db ?w) =
      (Inr [], [delete_bucket_replications_stmt 3])"
    by (simp add: stub_defs)
  show ?thesis
    using Delete_without_rows [OF h1 h2 h3 h4]
    by (simp add: world0_def)
qed

text \<open>
  Claim C6, as stated, fails for \<open>DeleteReplication\<close>: when the deletion of the queue
  fails, nothing is logged and the error of \<open>DeleteQueue\<close> itself is returned.
\<close>

theorem DeleteReplication_queue_error_counterexample:
  "fst (DeleteReplication (stub_runtime True)
          (stub_service (stub_store (Inr [7]) (Inr []) (Inr [])) cleanup_fails None) 7 (world0 []))
     = Some (Opaque ''directory not removed'')
   \<and> trace (snd (DeleteReplication (stub_runtime True)
          (stub_service (stub_store (Inr [7]) (Inr []) (Inr [])) cleanup_fails None) 7 (world0 [])))
     = [Exec (delete_replication_stmt 7), DeleteQueueCall 7]"
  by (simp add: DeleteReplication_def stub_defs call_defs cleanup_fails_def Let_def)

text \<open>
  Claim C6, amended. In \<open>DeleteBucketReplications\<close>, when every identifier returned by the
  \<open>DELETE\<close> is parsed, \<open>DeleteQueue\<close> is called for each of them in turn, whatever
  the earlier calls returned, every failed call is logged with the identifier, and after
  the loop one error for the bucket is returned if some call failed, and success
  otherwise. \<open>DeleteReplication\<close>, when its \<open>DELETE\<close> has returned the row, calls
  \<open>DeleteQueue\<close> once and returns what that call returns, its error as it is, without a
  log entry. The two parts hold apart from each other, each for every queue manager.
\<close>

theorem Delete_queue_failures:
  "(ToSql rt (delete_bucket_replications_stmt localBucketID) = None \<longrightarrow>
    query_strings (store s) (delete_bucket_replications_stmt localBucketID) (db w)
      = (Inr deleted, d) \<longrightarrow>
    map (IDFromString rt) deleted = map (\<lambda>i. (Some i, None)) ids \<longrightarrow>
    (let results = call_results (\<lambda>k. DeleteQueue (durableQueueManager s) (snd k))
                     (zip deleted ids) (queues w);
         new = drop (Suc (length (trace w)))
                 (trace (snd (DeleteBucketReplications rt s localBucketID w)))
     in fst (DeleteBucketReplications rt s localBucketID w) =
          Return (if failures results = [] then None
                  else Some (bucket_deletion_error localBucketID))
      \<and> filter is_DeleteQueueCall new = map DeleteQueueCall ids
      \<and> filter is_Log new =
          map (\<lambda>(k, err). deletion_failure_log err (fst k)) (failures results)
            @ [bucket_deleted_log localBucketID deleted]))
   \<and> (ToSql rt2 (delete_replication_stmt rid) = None \<longrightarrow>
      query_ids (store s2) (delete_replication_stmt rid) (db w2) = (Inr (x # xs), d1) \<longrightarrow>
      DeleteQueue (durableQueueManager s2) rid (queues w2) = (res, q1) \<longrightarrow>
      DeleteReplication rt2 s2 rid w2 =
        (res, w2\<lparr>db := d1, queues := q1,
                 trace := trace w2 @ [Exec (delete_replication_stmt rid), DeleteQueueCall rid]\<rparr>))"
  using DeleteBucketReplications_parsed [of rt localBucketID s w deleted d ids]
    DeleteReplication_queue_result [of rt2 rid s2 w2 x xs d1 res q1]
  by blast

theorem Delete_queue_failures_witness:
  "fst (DeleteBucketReplications (stub_runtime True)
          (stub_service
             (stub_store (Inr [10]) (Inr []) (Inr [''000000000000000a'', ''000000000000000B'']))
             (one_fails 10) None) 3 (world0 []))
     = Return (Some (bucket_deletion_error 3))
   \<and> filter is_DeleteQueueCall (drop 1 (trace (snd (DeleteBucketReplications (stub_runtime True)
          (stub_service
             (stub_store (Inr [10]) (Inr []) (Inr [''000000000000000a'', ''000000000000000B'']))
             (one_fails 10) None) 3 (world0 [])))))
     = [DeleteQueueCall 10, DeleteQueueCall 11]
   \<and> filter is_Log (drop 1 (trace (snd (DeleteBucketReplications (stub_runtime True)
          (stub_service
             (stub_store (Inr [10]) (Inr []) (Inr [''000000000000000a'', ''000000000000000B'']))
             (one_fails 10) None) 3 (world0 [])))))
     = [deletion_failure_log (Opaque ''directory not removed'') ''000000000000000a'',
        bucket_deleted_log 3 [''000000000000000a'', ''000000000000000B'']]
   \<and> fst (DeleteBucketReplications (stub_runtime True)
          (stub_service
             (stub_store (Inr [10]) (Inr []) (Inr [''000000000000000a'', ''000000000000000B'']))
             (\<lambda>e. None) None) 3 (world0 []))
     = Return None
   \<and> fst (DeleteReplication (stub_runtime True)
          (stub_service
             (stub_store (Inr [10]) (Inr []) (Inr [''000000000000000a'', ''000000000000000B'']))
             (one_fails 10) None) 10 (world0 []))
     = Some (Opaque ''directory not removed'')
   \<and> fst (DeleteReplication (stub_runtime True)
          (stub_service
             (stub_store (Inr [10]) (Inr []) (Inr [''000000000000000a'', ''000000000000000B'']))
             (\<lambda>e. None) None) 10 (world0 []))
     = None"
proof -
  let ?rt = "stub_runtime True :: (string, bytes \<times> bytes) runtime"
  let ?st = "stub_store (Inr [10]) (Inr []) (Inr [''000000000000000a'', ''000000000000000B''])"
  let ?bad = "stub_service ?st (one_fails 10) None"
  let ?good = "stub_service ?st (\<lambda>e. None) None"
  let ?w = "world0 [] :: (stmt list, (ID \<times> bytes) list, string list) world"
  let ?deleted = "[''000000000000000a'', ''000000000000000B'']"
  have h1: "ToSql ?rt (delete_bucket_replications_stmt 3) = None"
    by (simp add: stub_defs)
  have h2: "query_strings (store ?bad) (delete_bucket_replications_stmt 3) (db ?w) =
      (Inr ?deleted, [delete_bucket_replications_stmt 3])"
    "query_strings (store ?good) (delete_bucket_replications_stmt 3) (db ?w) =
      (Inr ?deleted, [delete_bucket_replications_stmt 3])"
    by (simp_all add: stub_defs)
  have h3: "map (IDFromString ?rt) ?deleted = map (\<lambda>i. (Some i, None)) [10, 11]"
    by (simp add: stub_runtime_def stub_IDFromString_def hex_digit_def)
  have h4: "ToSql ?rt (delete_replication_stmt 10) = None"
    by (simp add: stub_defs)
  have h5: "query_ids (store ?bad) (delete_replication_stmt 10) (db ?w) =
      (Inr (10 # []), [delete_replication_stmt 10])"
    "query_ids (store ?good) (delete_replication_stmt 10) (db ?w) =
      (Inr (10 # []), [delete_replication_stmt 10])"
    by (simp_all add: stub_defs)
  have h6: "DeleteQueue (durableQueueManager ?bad) 10 (queues ?w) =
      (Some (Opaque ''directory not removed''), [])"
    "DeleteQueue (durableQueueManager ?good) 10 (queues ?w) = (None, [])"
    by (simp_all add: stub_defs one_fails_def)
  have bad: "failures (call_results (\<lambda>k. DeleteQueue (durableQueueManager ?bad) (snd k))
      (zip ?deleted [10, 11]) (queues ?w)) =
      [((''000000000000000a'', 10), Opaque ''directory not removed'')]"
    by (simp add: stub_defs one_fails_def failures_def)
  have good: "failures (call_results (\<lambda>k. DeleteQueue (durableQueueManager ?good) (snd k))
      (zip ?deleted [10, 11]) (queues ?w)) = []"
    by (simp add: stub_defs failures_def)
  note bucket_bad = Delete_queue_failures [THEN conjunct1, rule_format, OF h1 h2(1) h3]
  note bucket_good = Delete_queue_failures [THEN conjunct1, rule_format, OF h1 h2(2) h3]
  note single_bad = Delete_queue_failures [THEN conjunct2, rule_format, OF h4 h5(1) h6(1)]
  note single_good = Delete_queue_failures [THEN conjunct2, rule_format, OF h4 h5(2) h6(2)]
  show ?thesis
    using bucket_bad bucket_good single_bad single_good
    unfolding Let_def bad good
    by (simp add: world0_def)
qed

text \<open>
  Claim C10 fails on the code. For an identifier that is not parsed,
  \<open>platform.IDFromString\<close> returns a nil pointer with its error;
  \<open>DeleteBucketReplications\<close> logs the error and goes on to dereference the pointer:
  the run below ends in the panic of the nil dereference.
\<close>

theorem DeleteBucketReplications_nil_dereference:
  "IDFromString (stub_runtime True) ''not-a-replication-id'' = (None, Some ErrInvalidIDLength)
   \<and> DeleteBucketReplications (stub_runtime True)
       (stub_service (stub_store (Inr []) (Inr []) (Inr [''not-a-replication-id'']))
          (\<lambda>e. None) None) 3 (world0 []) =
     (Panic nil_dereference,
      \<lparr>db = [delete_bucket_replications_stmt 3], queues = [], tsm = [], ids_issued = 0,
       trace = [Exec (delete_bucket_replications_stmt 3),
                deletion_failure_log ErrInvalidIDLength ''not-a-replication-id'']\<rparr>)"
  by (simp add: DeleteBucketReplications_def stub_defs call_defs stub_IDFromString_def Let_def)

section \<open>CreateReplication: the timestamps of the new row\<close>

text \<open>
  Claim C8 fails on the code. \<open>CreateReplication\<close> gives \<open>created_at\<close> and
  \<open>updated_at\<close> the Go string \<open>datetime('now')\<close>, which is bound as a parameter, where
  \<open>UpdateReplication\<close> gives \<open>updated_at\<close> the expression \<open>sq.Expr("datetime('now')")\<close>.
  In the run below the row stored has the text \<open>datetime('now')\<close> in both columns, not
  the time of the clock that the expression evaluates to.
\<close>

theorem CreateReplication_timestamps_are_text:
  "(\<exists>r. fst (CreateReplication (stub_runtime True)
              (stub_service (mem_store ''2021-10-22 13:45:00'') (\<lambda>e. None) None)
              example_request (world0 [])) = Inr r)
   \<and> db (snd (CreateReplication (stub_runtime True)
              (stub_service (mem_store ''2021-10-22 13:45:00'') (\<lambda>e. None) None)
              example_request (world0 []))) =
       [[(''id'', VID 1), (''org_id'', VID 1), (''name'', VString ''r1''),
         (''description'', VStringPtr None), (''remote_id'', VID 2),
         (''local_bucket_id'', VID 3), (''remote_bucket_id'', VID 4),
         (''max_queue_size_bytes'', VInt64 1073741824),
         (''drop_non_retryable_data'', VBool False),
         (''created_at'', VString ''datetime('now')''),
         (''updated_at'', VString ''datetime('now')'')]]
   \<and> stored_value ''2021-10-22 13:45:00'' (VExpr ''datetime('now')'') = VString ''2021-10-22 13:45:00''
   \<and> VString ''datetime('now')'' \<noteq> VString ''2021-10-22 13:45:00''"
  by (simp add: CreateReplication_def stub_defs call_defs mem_store_def example_request_def
      insert_replication_stmt_def stored_value_def)

section \<open>Metrics\<close>




end
